theory Spec2Isabelle
  imports Main
begin

section \<open>JavaScript strings\<close>

text \<open>
  A JavaScript string is modelled as a \<^typ>\<open>string\<close>: a list of code units, each of them
  a \<^typ>\<open>char\<close>, so the texts covered are those whose code units lie in 0..255 (Latin-1).
  The string methods the sources call are defined below on that range.
\<close>

definition codeUnit :: "char \<Rightarrow> nat" where
  "codeUnit c = of_char c"

definition isUpperAZ :: "char \<Rightarrow> bool" where
  "isUpperAZ c = (65 \<le> codeUnit c \<and> codeUnit c \<le> 90)"

definition isLowerAZ :: "char \<Rightarrow> bool" where
  "isLowerAZ c = (97 \<le> codeUnit c \<and> codeUnit c \<le> 122)"

definition isDigit :: "char \<Rightarrow> bool" where
  "isDigit c = (48 \<le> codeUnit c \<and> codeUnit c \<le> 57)"

text \<open>Upper-case letters of Latin-1 beyond ASCII: U+00C0..U+00DE without U+00D7.\<close>

definition isUpperLatin :: "char \<Rightarrow> bool" where
  "isUpperLatin c = ((192 \<le> codeUnit c \<and> codeUnit c \<le> 214) \<or> (216 \<le> codeUnit c \<and> codeUnit c \<le> 222))"

text \<open>Lower-case letters of Latin-1 whose upper case is again in Latin-1:
  U+00E0..U+00FE without U+00F7.\<close>

definition isLowerLatin :: "char \<Rightarrow> bool" where
  "isLowerLatin c = ((224 \<le> codeUnit c \<and> codeUnit c \<le> 246) \<or> (248 \<le> codeUnit c \<and> codeUnit c \<le> 254))"

text \<open>The two cases of a letter differ in the bit of value 32.\<close>

fun setBit5 :: "bool \<Rightarrow> char \<Rightarrow> char" where
  "setBit5 b (Char b0 b1 b2 b3 b4 b5 b6 b7) = Char b0 b1 b2 b3 b4 b b6 b7"

definition toLowerChar :: "char \<Rightarrow> char" where
  "toLowerChar c = (if isUpperAZ c \<or> isUpperLatin c then setBit5 True c else c)"

definition toLowerCase :: "string \<Rightarrow> string" where
  "toLowerCase s = map toLowerChar s"

text \<open>\<open>s.startsWith(p)\<close> and \<open>s.includes(p)\<close>.\<close>

fun startsWith :: "string \<Rightarrow> string \<Rightarrow> bool" where
  "startsWith s [] = True"
| "startsWith [] (p # ps) = False"
| "startsWith (c # cs) (p # ps) = (c = p \<and> startsWith cs ps)"

fun includes_str :: "string \<Rightarrow> string \<Rightarrow> bool" where
  "includes_str [] p = startsWith [] p"
| "includes_str (c # cs) p = (startsWith (c # cs) p \<or> includes_str cs p)"

text \<open>\<open>String(n)\<close> for a non-negative integer: its decimal digits.\<close>

definition digitChar :: "nat \<Rightarrow> char" where
  "digitChar d = ''0123456789'' ! d"

function String_of_nat :: "nat \<Rightarrow> string" where
  "String_of_nat n =
     (if n < 10 then [digitChar n] else String_of_nat (n div 10) @ [digitChar (n mod 10)])"
  by pat_completeness auto
termination
  by (relation "measure id") auto

text \<open>\<open>s.padStart(n, c)\<close> for a one-character pad string.\<close>

definition padStart :: "string \<Rightarrow> nat \<Rightarrow> char \<Rightarrow> string" where
  "padStart s n c = replicate (n - length s) c @ s"


text \<open>
  White space as \<open>\s\<close> and \<open>trim\<close> see it (tab, line feed, vertical tab, form feed,
  carriage return, space, no-break space), the word characters of \<open>\w\<close> and \<open>\b\<close>, and
  the line terminators of \<open>^\<close> and \<open>$\<close> under the flag \<open>m\<close>.
\<close>

definition isSpace :: "char \<Rightarrow> bool" where
  "isSpace c = ((9 \<le> codeUnit c \<and> codeUnit c \<le> 13) \<or> codeUnit c = 32 \<or> codeUnit c = 160)"

definition isWordChar :: "char \<Rightarrow> bool" where
  "isWordChar c = (isUpperAZ c \<or> isLowerAZ c \<or> isDigit c \<or> c = CHR ''_'')"

definition isLineTerminator :: "char \<Rightarrow> bool" where
  "isLineTerminator c = (c = CHR 0x0A \<or> c = CHR 0x0D)"

text \<open>
  \<open>toUpperCase\<close>: a letter loses the bit of value 32, U+00DF becomes \<open>SS\<close>. The upper
  cases of U+00FF and U+00B5 are U+0178 and U+039C, outside the modelled range:
  \<open>upperOutside\<close> holds of the two, \<open>toUpperChar\<close> leaves them alone, and
  \<open>equalsUpperCase s\<close>, which is \<open>s === s.toUpperCase()\<close>, is false when one occurs.
\<close>

definition upperOutside :: "char \<Rightarrow> bool" where
  "upperOutside c = (codeUnit c = 255 \<or> codeUnit c = 181)"

definition toUpperChar :: "char \<Rightarrow> string" where
  "toUpperChar c =
     (if codeUnit c = 223 then ''SS''
      else if isLowerAZ c \<or> isLowerLatin c then [setBit5 False c]
      else [c])"

definition toUpperCase :: "string \<Rightarrow> string" where
  "toUpperCase s = concat (map toUpperChar s)"

definition equalsUpperCase :: "string \<Rightarrow> bool" where
  "equalsUpperCase s = (\<not> list_ex upperOutside s \<and> toUpperCase s = s)"

text \<open>\<open>s.trim()\<close>.\<close>

definition trim :: "string \<Rightarrow> string" where
  "trim s = rev (dropWhile isSpace (rev (dropWhile isSpace s)))"

text \<open>
  \<open>s.indexOf(p)\<close>: the index of the first occurrence of \<open>p\<close>, or -1.
  \<open>s.substring(a, b)\<close>: both indices are clamped to the string and swapped when \<open>a > b\<close>.
\<close>

fun indexOf :: "string \<Rightarrow> string \<Rightarrow> int" where
  "indexOf [] p = (if startsWith [] p then 0 else -1)"
| "indexOf (c # cs) p =
     (if startsWith (c # cs) p then 0
      else let i = indexOf cs p in if i < 0 then -1 else i + 1)"

definition clampIndex :: "string \<Rightarrow> int \<Rightarrow> nat" where
  "clampIndex s i = (if i < 0 then 0 else min (nat i) (length s))"

definition substring :: "string \<Rightarrow> int \<Rightarrow> int \<Rightarrow> string" where
  "substring s a b =
     (let from = min (clampIndex s a) (clampIndex s b);
          to = max (clampIndex s a) (clampIndex s b)
      in take (to - from) (drop from s))"

text \<open>\<open>s.split(c)\<close> for a one-character separator, and \<open>parts.join(c)\<close>.\<close>

fun splitChar :: "char \<Rightarrow> string \<Rightarrow> string list" where
  "splitChar sep [] = [[]]"
| "splitChar sep (c # cs) =
     (if c = sep then [] # splitChar sep cs
      else case splitChar sep cs of
             [] \<Rightarrow> [[c]]
           | piece # pieces \<Rightarrow> (c # piece) # pieces)"

fun joinChar :: "char \<Rightarrow> string list \<Rightarrow> string" where
  "joinChar sep [] = []"
| "joinChar sep [s] = s"
| "joinChar sep (s # ss) = s @ sep # joinChar sep ss"

text \<open>\<open>xs[i]\<close> on an array: undefined out of range.\<close>

fun elemAt :: "'a list \<Rightarrow> nat \<Rightarrow> 'a option" where
  "elemAt [] i = None"
| "elemAt (x # xs) 0 = Some x"
| "elemAt (x # xs) (Suc i) = elemAt xs i"

section \<open>Regular expressions\<close>

text \<open>
  The patterns of the sources are regular expression literals. They are embedded as
  values of \<open>regex\<close> and run by a backtracking matcher that follows the matching
  algorithm of the language: alternatives are tried from the left, a quantifier takes
  as many repetitions as it can (as few, when lazy) before it gives one back, and the
  first success ends the search. A class item is a character, a range, or one of
  \<open>\d\<close>, \<open>\s\<close>, \<open>\S\<close>, \<open>\w\<close>.
\<close>

datatype citem = CChar char | CRange char char | CDigit | CSpace | CNonSpace | CWord

datatype regex =
    Cls bool "citem list"
  | Eps
  | Seq regex regex
  | Alt regex regex
  | Rep nat "nat option" bool regex
  | Group nat regex
  | Bol
  | Eol
  | WordB
  | Ahead regex

text \<open>
  \<open>Cls neg items\<close> is a class, negated when \<open>neg\<close>; \<open>Rep lo hi greedy r\<close> is
  \<open>r{lo,hi}\<close> (no upper bound when \<open>hi\<close> is \<open>None\<close>, lazy when \<open>greedy\<close> is
  false); \<open>Group n r\<close> is the \<open>n\<close>-th
  capturing group; \<open>Bol\<close>, \<open>Eol\<close>, \<open>WordB\<close> are \<open>^\<close>, \<open>$\<close>, \<open>\b\<close>; \<open>Ahead r\<close> is
  \<open>(?=r)\<close>.
\<close>

fun itemMem :: "citem \<Rightarrow> char \<Rightarrow> bool" where
  "itemMem (CChar a) c = (c = a)"
| "itemMem (CRange a b) c = (codeUnit a \<le> codeUnit c \<and> codeUnit c \<le> codeUnit b)"
| "itemMem CDigit c = isDigit c"
| "itemMem CSpace c = isSpace c"
| "itemMem CNonSpace c = (\<not> isSpace c)"
| "itemMem CWord c = isWordChar c"

text \<open>
  Under the flag \<open>i\<close> two characters match when their canonical forms (the upper
  cases) agree: a letter matches an item when it or its other case is in the item.
\<close>

definition swapCase :: "char \<Rightarrow> char" where
  "swapCase c =
     (if isUpperAZ c \<or> isUpperLatin c then setBit5 True c
      else if isLowerAZ c \<or> isLowerLatin c then setBit5 False c
      else c)"

definition clsMatch :: "bool \<Rightarrow> bool \<Rightarrow> citem list \<Rightarrow> char \<Rightarrow> bool" where
  "clsMatch ic neg items c =
     (neg \<noteq> list_ex (\<lambda>it. itemMem it c \<or> (ic \<and> itemMem it (swapCase c))) items)"

text \<open>
  The state of a match: the character before the current position (none at the start
  of the input), the input from the current position on, and the captures so far.
\<close>

datatype mstate = MState (prevChar: "char option") (rest: string) (caps: "(nat \<times> string) list")

definition atWordBoundary :: "mstate \<Rightarrow> bool" where
  "atWordBoundary st =
     ((case prevChar st of None \<Rightarrow> False | Some c \<Rightarrow> isWordChar c)
      \<noteq> (case rest st of [] \<Rightarrow> False | c # _ \<Rightarrow> isWordChar c))"

definition atLineStart :: "bool \<Rightarrow> mstate \<Rightarrow> bool" where
  "atLineStart ml st =
     (case prevChar st of None \<Rightarrow> True | Some c \<Rightarrow> ml \<and> isLineTerminator c)"

definition atLineEnd :: "bool \<Rightarrow> mstate \<Rightarrow> bool" where
  "atLineEnd ml st =
     (case rest st of [] \<Rightarrow> True | c # _ \<Rightarrow> ml \<and> isLineTerminator c)"

fun rsize :: "regex \<Rightarrow> nat" where
  "rsize (Seq a b) = Suc (rsize a + rsize b)"
| "rsize (Alt a b) = Suc (rsize a + rsize b)"
| "rsize (Rep lo hi g a) = Suc (rsize a)"
| "rsize (Group n a) = Suc (rsize a)"
| "rsize (Ahead a) = Suc (rsize a)"
| "rsize _ = 0"

fun repLo :: "regex \<Rightarrow> nat" where
  "repLo (Rep lo hi g a) = lo"
| "repLo _ = 0"

fun decHi :: "nat option \<Rightarrow> nat option" where
  "decHi None = None"
| "decHi (Some n) = Some (n - 1)"

text \<open>
  \<open>matchRx ic ml r st k\<close> matches \<open>r\<close> at the state \<open>st\<close> and hands every state it
  can end in to the continuation \<open>k\<close>, in the order of the language's priorities,
  until \<open>k\<close> succeeds; \<open>ic\<close> and \<open>ml\<close> are the flags \<open>i\<close> and \<open>m\<close>. Once the lower
  bound of a quantifier is met, a repetition that consumes nothing is not taken, as
  in the language. None of the patterns below has a capturing group under a
  quantifier, so captures are never reset.
\<close>

function (sequential) matchRx ::
  "bool \<Rightarrow> bool \<Rightarrow> regex \<Rightarrow> mstate \<Rightarrow> (mstate \<Rightarrow> mstate option) \<Rightarrow> mstate option" where
  "matchRx ic ml (Cls neg items) st k =
     (case rest st of
        [] \<Rightarrow> None
      | c # cs \<Rightarrow> if clsMatch ic neg items c then k (MState (Some c) cs (caps st)) else None)"
| "matchRx ic ml Eps st k = k st"
| "matchRx ic ml (Seq a b) st k = matchRx ic ml a st (\<lambda>st'. matchRx ic ml b st' k)"
| "matchRx ic ml (Alt a b) st k =
     (case matchRx ic ml a st k of Some r \<Rightarrow> Some r | None \<Rightarrow> matchRx ic ml b st k)"
| "matchRx ic ml (Rep lo hi True a) st k =
     (if hi = Some 0 then k st
      else if 0 < lo then
        matchRx ic ml a st (\<lambda>st'. matchRx ic ml (Rep (lo - 1) (decHi hi) True a) st' k)
      else
        (case matchRx ic ml a st
                (\<lambda>st'. if length (rest st') < length (rest st)
                        then matchRx ic ml (Rep 0 (decHi hi) True a) st' k else None) of
           Some r \<Rightarrow> Some r
         | None \<Rightarrow> k st))"
| "matchRx ic ml (Rep lo hi False a) st k =
     (if hi = Some 0 then k st
      else if 0 < lo then
        matchRx ic ml a st (\<lambda>st'. matchRx ic ml (Rep (lo - 1) (decHi hi) False a) st' k)
      else
        (case k st of
           Some r \<Rightarrow> Some r
         | None \<Rightarrow>
             matchRx ic ml a st
                (\<lambda>st'. if length (rest st') < length (rest st)
                        then matchRx ic ml (Rep 0 (decHi hi) False a) st' k else None)))"
| "matchRx ic ml (Group n a) st k =
     matchRx ic ml a st
       (\<lambda>st'. k (MState (prevChar st') (rest st')
                   ((n, take (length (rest st) - length (rest st')) (rest st)) # caps st')))"
| "matchRx ic ml Bol st k = (if atLineStart ml st then k st else None)"
| "matchRx ic ml Eol st k = (if atLineEnd ml st then k st else None)"
| "matchRx ic ml WordB st k = (if atWordBoundary st then k st else None)"
| "matchRx ic ml (Ahead a) st k =
     (case matchRx ic ml a st Some of
        None \<Rightarrow> None
      | Some st' \<Rightarrow> k (MState (prevChar st) (rest st) (caps st')))"
  by pat_completeness auto
termination
  by (relation "measures [\<lambda>(ic, ml, r, st, k). rsize r, \<lambda>(ic, ml, r, st, k). repLo r,
                          \<lambda>(ic, ml, r, st, k). length (rest st)]") auto

text \<open>
  The words a pattern can consume, read as a language: an upper bound on the matcher
  (anchors and lookaheads consume nothing, the upper bound of a repetition is
  forgotten). \<open>repLower lo hi\<close> is the least number of repetitions \<open>{lo,hi}\<close> takes,
  and \<open>minLen r\<close> the length of the shortest word of the language.
\<close>

fun repLower :: "nat \<Rightarrow> nat option \<Rightarrow> nat" where
  "repLower lo None = lo"
| "repLower lo (Some h) = min lo h"

fun lang :: "bool \<Rightarrow> regex \<Rightarrow> string set" where
  "lang ic (Cls neg items) = {[c] | c. clsMatch ic neg items c}"
| "lang ic Eps = {[]}"
| "lang ic (Seq a b) = {u @ v | u v. u \<in> lang ic a \<and> v \<in> lang ic b}"
| "lang ic (Alt a b) = lang ic a \<union> lang ic b"
| "lang ic (Rep lo hi g a) = {concat ws | ws. set ws \<subseteq> lang ic a \<and> repLower lo hi \<le> length ws}"
| "lang ic (Group n a) = lang ic a"
| "lang ic Bol = {[]}"
| "lang ic Eol = {[]}"
| "lang ic WordB = {[]}"
| "lang ic (Ahead a) = {[]}"


text \<open>What a successful match consumed is a word of the pattern's language.\<close>

definition consumes :: "bool \<Rightarrow> regex \<Rightarrow> mstate \<Rightarrow> (mstate \<Rightarrow> mstate option) \<Rightarrow> mstate \<Rightarrow> bool" where
  "consumes ic r st k res =
     (\<exists>st'. k st' = Some res \<and> (\<exists>w. rest st = w @ rest st' \<and> w \<in> lang ic r))"

subsection \<open>Writing patterns\<close>

definition lit :: "char \<Rightarrow> regex" where
  "lit c = Cls False [CChar c]"

fun strRx :: "string \<Rightarrow> regex" where
  "strRx [] = Eps"
| "strRx [c] = lit c"
| "strRx (c # cs) = Seq (lit c) (strRx cs)"

fun seqs :: "regex list \<Rightarrow> regex" where
  "seqs [] = Eps"
| "seqs [r] = r"
| "seqs (r # rs) = Seq r (seqs rs)"

fun alts :: "regex list \<Rightarrow> regex" where
  "alts [] = Eps"
| "alts [r] = r"
| "alts (r # rs) = Alt r (alts rs)"

definition cls :: "citem list \<Rightarrow> regex" where
  "cls items = Cls False items"

definition ncls :: "citem list \<Rightarrow> regex" where
  "ncls items = Cls True items"

definition opt :: "regex \<Rightarrow> regex" where
  "opt r = Rep 0 (Some 1) True r"

definition star :: "regex \<Rightarrow> regex" where
  "star r = Rep 0 None True r"

definition plus :: "regex \<Rightarrow> regex" where
  "plus r = Rep 1 None True r"

definition rep :: "nat \<Rightarrow> nat \<Rightarrow> regex \<Rightarrow> regex" where
  "rep lo hi r = Rep lo (Some hi) True r"

definition repMin :: "nat \<Rightarrow> regex \<Rightarrow> regex" where
  "repMin lo r = Rep lo None True r"

definition repLazy :: "nat \<Rightarrow> nat \<Rightarrow> regex \<Rightarrow> regex" where
  "repLazy lo hi r = Rep lo (Some hi) False r"

definition digit :: regex where
  "digit = Cls False [CDigit]"

definition space :: regex where
  "space = Cls False [CSpace]"

subsection \<open>Regular expression objects and the methods that take them\<close>

text \<open>A literal \<open>/source/flags\<close>.\<close>

datatype RegExp = RegExp (source: regex) (flags: string)

definition ignoreCase :: "RegExp \<Rightarrow> bool" where
  "ignoreCase re = (CHR ''i'' \<in> set (flags re))"

definition multiline :: "RegExp \<Rightarrow> bool" where
  "multiline re = (CHR ''m'' \<in> set (flags re))"

definition matchHere :: "RegExp \<Rightarrow> char option \<Rightarrow> string \<Rightarrow> mstate option" where
  "matchHere re prev s = matchRx (ignoreCase re) (multiline re) (source re) (MState prev s []) Some"

text \<open>
  The search for the first match, from the left: the text before the match, the
  match, and the final state with its captures.
\<close>

fun searchRx :: "RegExp \<Rightarrow> char option \<Rightarrow> string \<Rightarrow> (string \<times> string \<times> mstate) option" where
  "searchRx re prev [] =
     (case matchHere re prev [] of
        Some st' \<Rightarrow> Some ([], [], st')
      | None \<Rightarrow> None)"
| "searchRx re prev (c # cs) =
     (case matchHere re prev (c # cs) of
        Some st' \<Rightarrow> Some ([], take (length (c # cs) - length (rest st')) (c # cs), st')
      | None \<Rightarrow>
          (case searchRx re (Some c) cs of
             None \<Rightarrow> None
           | Some (before, m, st') \<Rightarrow> Some (c # before, m, st')))"

text \<open>
  \<open>re.exec(s)\<close> with \<open>lastIndex\<close> 0, and \<open>s.match(re)\<close> for a pattern without the flag
  \<open>g\<close>: null, or the match with its captures. \<open>groupAt m n\<close> is \<open>m[n]\<close>: the match
  for 0, the last capture of group \<open>n\<close> otherwise, undefined when the group took no
  part.
\<close>

type_synonym matchResult = "string \<times> (nat \<times> string) list"

definition exec :: "RegExp \<Rightarrow> string \<Rightarrow> matchResult option" where
  "exec re s =
     (case searchRx re None s of
        None \<Rightarrow> None
      | Some (before, m, st') \<Rightarrow> Some (m, caps st'))"

definition groupAt :: "matchResult \<Rightarrow> nat \<Rightarrow> string option" where
  "groupAt m n = (if n = 0 then Some (fst m) else map_of (snd m) n)"

text \<open>A string or undefined is truthy when it is a non-empty string; \<open>a || b\<close>.\<close>

definition truthy :: "string option \<Rightarrow> bool" where
  "truthy v = (case v of None \<Rightarrow> False | Some s \<Rightarrow> s \<noteq> [])"

definition orElse :: "string option \<Rightarrow> string option \<Rightarrow> string option" where
  "orElse a b = (if truthy a then a else b)"

text \<open>A value inside a template literal: undefined prints as \<open>undefined\<close>.\<close>

definition templ :: "string option \<Rightarrow> string" where
  "templ v = (case v of None \<Rightarrow> ''undefined'' | Some s \<Rightarrow> s)"

definition test :: "RegExp \<Rightarrow> string \<Rightarrow> bool" where
  "test re s = (searchRx re None s \<noteq> None)"

text \<open>
  \<open>s.match(re)\<close> for a pattern with the flag \<open>g\<close>: null, or the list of all matches,
  each search starting where the match before ended (one character further after an
  empty match). \<open>skip\<close> counts the characters still covered by the last match.
\<close>

fun matchAllFrom :: "RegExp \<Rightarrow> char option \<Rightarrow> string \<Rightarrow> nat \<Rightarrow> string list" where
  "matchAllFrom re prev [] skip =
     (if 0 < skip then []
      else case matchHere re prev [] of
             Some st' \<Rightarrow> [[]]
           | None \<Rightarrow> [])"
| "matchAllFrom re prev (c # cs) skip =
     (if 0 < skip then matchAllFrom re (Some c) cs (skip - 1)
      else case matchHere re prev (c # cs) of
             Some st' \<Rightarrow>
               take (length (c # cs) - length (rest st')) (c # cs)
                 # matchAllFrom re (Some c) cs (length (c # cs) - length (rest st') - 1)
           | None \<Rightarrow> matchAllFrom re (Some c) cs 0)"

definition match_g :: "string \<Rightarrow> RegExp \<Rightarrow> string list option" where
  "match_g s re = (case matchAllFrom re None s 0 of [] \<Rightarrow> None | m # ms \<Rightarrow> Some (m # ms))"

text \<open>
  \<open>s.replace(re, '')\<close>: without the flag \<open>g\<close> the first match is removed, with it all
  matches are.
\<close>

definition removeFirst :: "string \<Rightarrow> RegExp \<Rightarrow> string" where
  "removeFirst s re =
     (case searchRx re None s of
        None \<Rightarrow> s
      | Some (before, m, st') \<Rightarrow> before @ rest st')"

fun removeAllFrom :: "RegExp \<Rightarrow> char option \<Rightarrow> string \<Rightarrow> nat \<Rightarrow> string" where
  "removeAllFrom re prev [] skip = []"
| "removeAllFrom re prev (c # cs) skip =
     (if 0 < skip then removeAllFrom re (Some c) cs (skip - 1)
      else case matchHere re prev (c # cs) of
             Some st' \<Rightarrow>
               if length (rest st') < length (c # cs)
               then removeAllFrom re (Some c) cs (length (c # cs) - length (rest st') - 1)
               else c # removeAllFrom re (Some c) cs 0
           | None \<Rightarrow> c # removeAllFrom re (Some c) cs 0)"

definition removeAll :: "string \<Rightarrow> RegExp \<Rightarrow> string" where
  "removeAll s re = removeAllFrom re None s 0"

text \<open>
  \<open>s.split(re)\<close> for a pattern without groups: at each position the pattern is
  tried there; a match that ends after the start of the current piece closes the
  piece, and the next one starts where the match ended. \<open>cur\<close> is the current piece,
  reversed.
\<close>

fun splitFrom :: "RegExp \<Rightarrow> char option \<Rightarrow> string \<Rightarrow> nat \<Rightarrow> string \<Rightarrow> string list" where
  "splitFrom re prev [] skip cur = [rev cur]"
| "splitFrom re prev (c # cs) skip cur =
     (if 0 < skip then splitFrom re (Some c) cs (skip - 1) cur
      else case matchHere re prev (c # cs) of
             None \<Rightarrow> splitFrom re (Some c) cs 0 (c # cur)
           | Some st' \<Rightarrow>
               if length (rest st') < length (c # cs)
               then rev cur # splitFrom re (Some c) cs (length (c # cs) - length (rest st') - 1) []
               else if cur = [] then splitFrom re (Some c) cs 0 [c]
               else rev cur # splitFrom re (Some c) cs 0 [c])"

definition split :: "string \<Rightarrow> RegExp \<Rightarrow> string list" where
  "split s re =
     (if s = [] then (case matchHere re None [] of Some st' \<Rightarrow> [] | None \<Rightarrow> [[]])
      else splitFrom re None s 0 [])"

section \<open>The birthday matcher\<close>

text \<open>
  The callback of \<open>allPeople.filter\<close> in \<open>checkAndSendBirthdaySMS\<close>
  (services/graphService.js) and, with the same text, in the route
  \<open>/birthdays/today\<close>. \<open>person.dob\<close> may be undefined: it is an option here.
  \<open>day\<close> is \<open>today.getDate()\<close>, \<open>month\<close> is \<open>today.getMonth() + 1\<close> and
  \<open>monthName\<close> the entry of \<open>monthNames\<close> for that month.
\<close>

definition dayStr :: "nat \<Rightarrow> string" where
  "dayStr day = padStart (String_of_nat day) 2 CHR ''0''"

definition monthStr :: "nat \<Rightarrow> string" where
  "monthStr month = padStart (String_of_nat month) 2 CHR ''0''"

definition datePatterns :: "nat \<Rightarrow> nat \<Rightarrow> string \<Rightarrow> string list" where
  "datePatterns day month monthName =
     [dayStr day @ ''/'' @ monthStr month @ ''/'',
      dayStr day @ ''-'' @ monthStr month @ ''-'',
      monthStr month @ ''/'' @ dayStr day @ ''/'',
      monthStr month @ ''-'' @ dayStr day @ ''-'',
      dayStr day @ ''/'' @ monthStr month,
      dayStr day @ ''-'' @ monthStr month,
      monthStr month @ ''/'' @ dayStr day,
      monthStr month @ ''-'' @ dayStr day,
      dayStr day @ monthStr month,
      monthStr month @ dayStr day,
      dayStr day @ '' '' @ toLowerCase monthName,
      toLowerCase monthName @ '' '' @ dayStr day,
      String_of_nat day @ '' '' @ toLowerCase monthName,
      toLowerCase monthName @ '' '' @ String_of_nat day]"

definition dayOrdinal :: "nat \<Rightarrow> string" where
  "dayOrdinal day =
     (if day = 1 then ''1st'' else if day = 2 then ''2nd'' else if day = 3 then ''3rd''
      else String_of_nat day @ ''th'')"

text \<open>The loop over \<open>datePatterns\<close> returns true at the first pattern contained.\<close>

fun anyPatternIncluded :: "string \<Rightarrow> string list \<Rightarrow> bool" where
  "anyPatternIncluded dobLower [] = False"
| "anyPatternIncluded dobLower (pattern # patterns) =
     (if includes_str dobLower (toLowerCase pattern) then True
      else anyPatternIncluded dobLower patterns)"

definition isBirthdayToday :: "string option \<Rightarrow> nat \<Rightarrow> nat \<Rightarrow> string \<Rightarrow> bool" where
  "isBirthdayToday dob day month monthName =
     (case dob of
        None \<Rightarrow> False
      | Some d \<Rightarrow>
          if d = [] then False
          else
            let dobLower = toLowerCase d in
            if anyPatternIncluded dobLower (datePatterns day month monthName) then True
            else if includes_str dobLower (toLowerCase (dayOrdinal day))
                    \<and> includes_str dobLower (toLowerCase monthName) then True
            else False)"

section \<open>The resume text extraction\<close>

text \<open>
  \<open>extractResumeData\<close> of services/pdfParser.js. Every block of the function that
  fills one field is a function of the text (and of the trimmed non-empty lines);
  the console output is left out. The patterns are the literals of the source, in
  the source's order. The dashes U+2014 and U+2013 of the date-of-birth separator
  class are outside the modelled range of code units and are left out of the class.
\<close>

definition LF :: char where
  "LF = CHR 0x0A"

definition CR :: char where
  "CR = CHR 0x0D"

definition rAZ :: citem where
  "rAZ = CRange CHR ''A'' CHR ''Z''"

definition raz :: citem where
  "raz = CRange CHR ''a'' CHR ''z''"

definition r09 :: citem where
  "r09 = CRange CHR ''0'' CHR ''9''"

text \<open>\<open>originalText.split(/\r?\n/).map(line => line.trim()).filter(line => line.length > 0)\<close>\<close>

definition linesOf :: "string \<Rightarrow> string list" where
  "linesOf originalText =
     filter (\<lambda>line. 0 < length line)
       (map trim (split originalText (RegExp (seqs [opt (lit CR), lit LF]) [])))"

subsection \<open>Name\<close>

text \<open>The four labelled patterns of strategy 1.\<close>

definition nameLine :: RegExp where
  "nameLine =
     RegExp (seqs [alts [Bol, lit LF], star space, strRx ''name'', star space,
                   cls [CChar CHR '':''], star space, Group 1 (plus (ncls [CChar LF, CChar CR]))]) ''i''"

definition fullNameLine :: RegExp where
  "fullNameLine =
     RegExp (seqs [alts [Bol, lit LF], star space, strRx ''full'', star space, strRx ''name'',
                   star space, cls [CChar CHR '':''], star space,
                   Group 1 (plus (ncls [CChar LF, CChar CR]))]) ''i''"

definition nameLabel :: RegExp where
  "nameLabel =
     RegExp (seqs [strRx ''name'', star space, cls [CChar CHR '':''], star space,
                   Group 1 (plus (cls [rAZ, raz, CSpace]))]) ''i''"

definition fullNameLabel :: RegExp where
  "fullNameLabel =
     RegExp (seqs [strRx ''full'', star space, strRx ''name'', star space, cls [CChar CHR '':''],
                   star space, Group 1 (plus (cls [rAZ, raz, CSpace]))]) ''i''"

definition namePatterns1 :: "RegExp list" where
  "namePatterns1 = [nameLine, fullNameLine, nameLabel, fullNameLabel]"

text \<open>
  Strategy 1: the loop over \<open>namePatterns1\<close>, left at the first pattern whose group 1
  is a non-empty string; the result is \<open>data.name\<close> after the loop.
\<close>

fun nameStrategy1 :: "RegExp list \<Rightarrow> string \<Rightarrow> string" where
  "nameStrategy1 [] originalText = []"
| "nameStrategy1 (pattern # patterns) originalText =
     (case exec pattern originalText of
        None \<Rightarrow> nameStrategy1 patterns originalText
      | Some match \<Rightarrow>
          (case groupAt match 1 of
             None \<Rightarrow> nameStrategy1 patterns originalText
           | Some g \<Rightarrow> if g \<noteq> [] then trim g else nameStrategy1 patterns originalText))"

definition splitPattern :: RegExp where
  "splitPattern =
     RegExp (seqs [Bol, Group 1 (repMin 3 (cls [rAZ])), Group 2 (repMin 3 (cls [rAZ])), Eol]) []"

text \<open>Strategy 2: an all-caps first line; \<open>name\<close> is \<open>data.name\<close> before the block.\<close>

definition nameStrategy2 :: "string \<Rightarrow> string list \<Rightarrow> string" where
  "nameStrategy2 name lines =
     (if name = [] \<and> 0 < length lines then
        (case lines of
           [] \<Rightarrow> name
         | firstLine # _ \<Rightarrow>
             if equalsUpperCase firstLine
                \<and> test (RegExp (seqs [Bol, plus (cls [rAZ]), Eol]) [])
                     (removeAll firstLine (RegExp space ''g''))
             then
               if 5 < length firstLine \<and> length firstLine < 30 then
                 (case exec splitPattern firstLine of
                    Some splitMatch \<Rightarrow>
                      templ (groupAt splitMatch 1) @ '' '' @ templ (groupAt splitMatch 2)
                  | None \<Rightarrow> firstLine)
               else name
             else name)
      else name)"

text \<open>Strategy 2b: an all-caps line of two to four words among the first five lines.\<close>

fun allCapsLine :: "string list \<Rightarrow> string" where
  "allCapsLine [] = []"
| "allCapsLine (line # lines) =
     (if equalsUpperCase line \<and> 5 < length line \<and> length line < 50 then
        (let words = split line (RegExp (plus space) []) in
         if 2 \<le> length words \<and> length words \<le> 4
            \<and> test (RegExp (seqs [Bol, plus (cls [rAZ, CSpace]), Eol]) []) line
         then line
         else allCapsLine lines)
      else allCapsLine lines)"

definition nameStrategy2b :: "string \<Rightarrow> string list \<Rightarrow> string" where
  "nameStrategy2b name lines = (if name = [] then allCapsLine (take 5 lines) else name)"

text \<open>Strategy 3: a line of two to four capitalised words among the first ten lines.\<close>

definition capitalizedWord :: "string \<Rightarrow> bool" where
  "capitalizedWord word =
     (0 < length word \<and> test (RegExp (seqs [Bol, cls [rAZ]]) []) word
      \<and> test (RegExp (seqs [Bol, plus (cls [rAZ, raz]), Eol]) []) word)"

fun capitalizedLine :: "string list \<Rightarrow> string" where
  "capitalizedLine [] = []"
| "capitalizedLine (line # lines) =
     (let words = split line (RegExp (plus space) []) in
      if 2 \<le> length words \<and> length words \<le> 4 then
        (let allCapitalized = list_all capitalizedWord words in
         if allCapitalized \<and> test (RegExp (seqs [Bol, plus (cls [rAZ, raz, CSpace]), Eol]) []) line
         then line
         else capitalizedLine lines)
      else capitalizedLine lines)"

definition nameStrategy3 :: "string \<Rightarrow> string list \<Rightarrow> string" where
  "nameStrategy3 name lines = (if name = [] then capitalizedLine (take 10 lines) else name)"

text \<open>Strategy 4: two or three capitalised words at the start of a line of the text.\<close>

definition namePattern :: RegExp where
  "namePattern =
     RegExp (seqs [Bol,
        Group 1 (seqs [cls [rAZ], plus (cls [raz]), plus space, cls [rAZ], plus (cls [raz]),
                       opt (seqs [plus space, cls [rAZ], plus (cls [raz])])])]) ''m''"

definition nameStrategy4 :: "string \<Rightarrow> string \<Rightarrow> string" where
  "nameStrategy4 name originalText =
     (if name = [] then
        (case exec namePattern originalText of
           None \<Rightarrow> name
         | Some match \<Rightarrow>
             (case groupAt match 1 of
                None \<Rightarrow> name
              | Some g \<Rightarrow> if g \<noteq> [] then trim g else name))
      else name)"

definition extractName :: "string \<Rightarrow> string list \<Rightarrow> string" where
  "extractName originalText lines =
     nameStrategy4
       (nameStrategy3 (nameStrategy2b (nameStrategy2 (nameStrategy1 namePatterns1 originalText) lines) lines) lines)
       originalText"

subsection \<open>Email\<close>

text \<open>
  The callback of \<open>filter\<close> reads \<open>email.split('@')[1]\<close> and calls \<open>includes\<close> on it:
  a TypeError, were the value undefined.
\<close>

datatype js_error = TypeError

definition alnum :: regex where
  "alnum = cls [raz, rAZ, r09]"

definition emailRegex :: RegExp where
  "emailRegex =
     RegExp (seqs [WordB, alnum,
                   opt (seqs [star (cls [raz, rAZ, r09, CChar CHR ''.'', CChar CHR ''_'', CChar CHR ''-'']), alnum]),
                   lit CHR ''@'', alnum,
                   opt (seqs [star (cls [raz, rAZ, r09, CChar CHR ''.'', CChar CHR ''-'']), alnum]),
                   lit CHR ''.'', repMin 2 (cls [raz, rAZ]), WordB]) ''g''"

definition falsePositives :: "string list" where
  "falsePositives = [''example.com'', ''email.com'', ''test.com'', ''domain.com'']"

text \<open>\<open>falsePositives.some(fp => domain.includes(fp))\<close>\<close>

fun someIncluded :: "string option \<Rightarrow> string list \<Rightarrow> js_error + bool" where
  "someIncluded domain [] = Inr False"
| "someIncluded domain (fp # fps) =
     (case domain of
        None \<Rightarrow> Inl TypeError
      | Some d \<Rightarrow> if includes_str d fp then Inr True else someIncluded domain fps)"

definition keepEmail :: "string \<Rightarrow> js_error + bool" where
  "keepEmail email =
     (let domain = elemAt (splitChar CHR ''@'' email) 1 in
      case someIncluded domain falsePositives of
        Inl e \<Rightarrow> Inl e
      | Inr b \<Rightarrow> Inr (\<not> b))"

fun filterEmails :: "string list \<Rightarrow> js_error + string list" where
  "filterEmails [] = Inr []"
| "filterEmails (email # emails) =
     (case keepEmail email of
        Inl e \<Rightarrow> Inl e
      | Inr keep \<Rightarrow>
          (case filterEmails emails of
             Inl e \<Rightarrow> Inl e
           | Inr kept \<Rightarrow> Inr (if keep then email # kept else kept)))"

text \<open>The primary scan: \<open>data.email\<close> after it.\<close>

definition emailPrimary :: "string \<Rightarrow> js_error + string" where
  "emailPrimary originalText =
     (case match_g originalText emailRegex of
        None \<Rightarrow> Inr []
      | Some emailMatches \<Rightarrow>
          (case filterEmails (map (\<lambda>email. trim (toLowerCase email)) emailMatches) of
             Inl e \<Rightarrow> Inl e
           | Inr [] \<Rightarrow> Inr []
           | Inr (first # _) \<Rightarrow> Inr first))"

definition emailAddress :: regex where
  "emailAddress =
     seqs [plus (cls [raz, rAZ, r09, CChar CHR ''.'', CChar CHR ''_'', CChar CHR ''%'', CChar CHR ''+'', CChar CHR ''-'']),
           lit CHR ''@'', plus (cls [raz, rAZ, r09, CChar CHR ''.'', CChar CHR ''-'']),
           lit CHR ''.'', repMin 2 (cls [raz, rAZ])]"

definition emailLabel :: regex where
  "emailLabel = alts [strRx ''email'', strRx ''e-mail'', strRx ''mail'']"

definition emailWithLabelPatterns :: "RegExp list" where
  "emailWithLabelPatterns =
     [RegExp (seqs [emailLabel, star space, cls [CChar CHR '':''], star space, Group 1 emailAddress]) ''gi'',
      RegExp (seqs [emailLabel, star space, cls [CChar CHR ''=''], star space, Group 1 emailAddress]) ''gi'']"

text \<open>The inner loop over the matches of one labelled pattern.\<close>

fun emailFromLabelMatches :: "string list \<Rightarrow> string" where
  "emailFromLabelMatches [] = []"
| "emailFromLabelMatches (match # matches) =
     (case match_g match emailRegex of
        None \<Rightarrow> emailFromLabelMatches matches
      | Some emailMatch \<Rightarrow>
          (case elemAt emailMatch 0 of
             None \<Rightarrow> emailFromLabelMatches matches
           | Some e \<Rightarrow>
               if e \<noteq> [] then trim (toLowerCase e) else emailFromLabelMatches matches))"

fun emailFromLabelPatterns :: "RegExp list \<Rightarrow> string \<Rightarrow> string" where
  "emailFromLabelPatterns [] originalText = []"
| "emailFromLabelPatterns (pattern # patterns) originalText =
     (case match_g originalText pattern of
        None \<Rightarrow> emailFromLabelPatterns patterns originalText
      | Some matches \<Rightarrow>
          (let email = emailFromLabelMatches matches in
           if email \<noteq> [] then email else emailFromLabelPatterns patterns originalText))"

definition extractEmail :: "string \<Rightarrow> js_error + string" where
  "extractEmail originalText =
     (case emailPrimary originalText of
        Inl e \<Rightarrow> Inl e
      | Inr email \<Rightarrow>
          if email = [] then Inr (emailFromLabelPatterns emailWithLabelPatterns originalText)
          else Inr email)"

subsection \<open>Contact number\<close>

definition sepOpt :: regex where
  "sepOpt = opt (cls [CChar CHR ''-'', CChar CHR ''.'', CSpace])"

text \<open>The five standalone patterns, named after the comments of the source.\<close>

definition internationalFormat :: RegExp where
  "internationalFormat =
     RegExp (seqs [opt (lit CHR ''+''), rep 1 4 digit, sepOpt, opt (lit CHR ''(''), rep 1 4 digit,
                   opt (lit CHR '')''), sepOpt, rep 1 4 digit, sepOpt, rep 1 4 digit, sepOpt,
                   rep 1 9 digit]) ''g''"

definition usFormat :: RegExp where
  "usFormat =
     RegExp (seqs [opt (lit CHR ''(''), rep 3 3 digit, opt (lit CHR '')''), sepOpt, rep 3 3 digit,
                   sepOpt, rep 4 4 digit]) ''g''"

definition indianFormat :: RegExp where
  "indianFormat =
     RegExp (seqs [opt (lit CHR ''+''), strRx ''91'', sepOpt, rep 5 5 digit, sepOpt, rep 5 5 digit]) ''g''"

definition genericDigits :: RegExp where
  "genericDigits = RegExp (seqs [WordB, rep 10 15 digit, WordB]) ''g''"

definition numbersWithSpaces :: RegExp where
  "numbersWithSpaces =
     RegExp (seqs [rep 3 4 digit, plus space, rep 3 4 digit, plus space, rep 3 4 digit]) ''g''"

definition phonePatterns :: "RegExp list" where
  "phonePatterns = [internationalFormat, usFormat, indianFormat, genericDigits, numbersWithSpaces]"

definition phoneChars :: regex where
  "phoneChars =
     plus (cls [CChar CHR ''+'', CDigit, CSpace, CChar CHR ''-'', CChar CHR ''('', CChar CHR '')'',
                CChar CHR ''.''])"

definition phoneWithLabelPatterns :: "RegExp list" where
  "phoneWithLabelPatterns =
     [RegExp (seqs [alts [strRx ''phone'', strRx ''mobile'', strRx ''contact'', strRx ''tel'',
                          strRx ''telephone'', strRx ''cell'', strRx ''mob'', strRx ''whatsapp''],
                    star space, opt (cls [CChar CHR '':'', CChar CHR ''='']), star space,
                    Group 1 phoneChars]) ''gi'',
      RegExp (seqs [alts [strRx ''ph'', strRx ''mob'', strRx ''tel''],
                    star space, opt (cls [CChar CHR '':'', CChar CHR ''='']), star space,
                    Group 1 phoneChars]) ''gi'']"

text \<open>\<open>s.replace(/[^\d+]/g, '')\<close>\<close>

definition cleanedOf :: "string \<Rightarrow> string" where
  "cleanedOf s = removeAll s (RegExp (ncls [CDigit, CChar CHR ''+'']) ''g'')"

text \<open>The labelled tier: the inner loop over the matches of one pattern, and the outer loop.\<close>

fun contactFromLabelMatches :: "string list \<Rightarrow> string" where
  "contactFromLabelMatches [] = []"
| "contactFromLabelMatches (match # matches) =
     (case exec (RegExp phoneChars []) match of
        None \<Rightarrow> contactFromLabelMatches matches
      | Some phoneMatch \<Rightarrow>
          (let cleaned = cleanedOf (fst phoneMatch) in
           if 10 \<le> length cleaned \<and> length cleaned \<le> 15 then cleaned
           else contactFromLabelMatches matches))"

fun contactFromLabelPatterns :: "RegExp list \<Rightarrow> string \<Rightarrow> string" where
  "contactFromLabelPatterns [] originalText = []"
| "contactFromLabelPatterns (pattern # patterns) originalText =
     (case match_g originalText pattern of
        None \<Rightarrow> contactFromLabelPatterns patterns originalText
      | Some matches \<Rightarrow>
          (let contactNumber = contactFromLabelMatches matches in
           if contactNumber \<noteq> [] then contactNumber
           else contactFromLabelPatterns patterns originalText))"

text \<open>
  The standalone tier. \<open>partOfEmail\<close> is the test on \<open>beforeMatch\<close> and \<open>afterMatch\<close>,
  both taken around \<open>originalText.indexOf(match)\<close>.
\<close>

definition beforeMatch :: "string \<Rightarrow> string \<Rightarrow> string" where
  "beforeMatch originalText match =
     substring originalText (max 0 (indexOf originalText match - 5)) (indexOf originalText match)"

definition afterMatch :: "string \<Rightarrow> string \<Rightarrow> string" where
  "afterMatch originalText match =
     substring originalText (indexOf originalText match + int (length match))
       (min (int (length originalText)) (indexOf originalText match + int (length match) + 5))"

definition partOfEmail :: "string \<Rightarrow> string \<Rightarrow> bool" where
  "partOfEmail originalText match =
     (includes_str (beforeMatch originalText match) ''@''
      \<or> includes_str (afterMatch originalText match) ''@''
      \<or> (includes_str (beforeMatch originalText match) ''.''
          \<and> includes_str (afterMatch originalText match) ''.''))"

definition yearPattern :: RegExp where
  "yearPattern = RegExp (seqs [Bol, cls [CChar CHR ''1'', CChar CHR ''2''], rep 3 3 digit, Eol]) []"

fun contactFromMatches :: "string \<Rightarrow> string list \<Rightarrow> string" where
  "contactFromMatches originalText [] = []"
| "contactFromMatches originalText (match # matches) =
     (let cleaned = cleanedOf match in
      if 10 \<le> length cleaned \<and> length cleaned \<le> 15 then
        (if length cleaned = 4 \<and> test yearPattern cleaned then contactFromMatches originalText matches
         else if partOfEmail originalText match then contactFromMatches originalText matches
         else cleaned)
      else contactFromMatches originalText matches)"

fun contactFromPatterns :: "RegExp list \<Rightarrow> string \<Rightarrow> string" where
  "contactFromPatterns [] originalText = []"
| "contactFromPatterns (pattern # patterns) originalText =
     (case match_g originalText pattern of
        None \<Rightarrow> contactFromPatterns patterns originalText
      | Some matches \<Rightarrow>
          (let contactNumber = contactFromMatches originalText matches in
           if contactNumber \<noteq> [] then contactNumber
           else contactFromPatterns patterns originalText))"

definition extractContactNumber :: "string \<Rightarrow> string" where
  "extractContactNumber originalText =
     (let contactNumber = contactFromLabelPatterns phoneWithLabelPatterns originalText in
      if contactNumber = [] then contactFromPatterns phonePatterns originalText
      else contactNumber)"

text \<open>What the length gate lets through: nothing, or 10 to 15 digits and \<open>+\<close> signs.\<close>

definition gated :: "string \<Rightarrow> bool" where
  "gated r = (r = [] \<or> (list_all (\<lambda>c. isDigit c \<or> c = CHR ''+'') r \<and> 10 \<le> length r \<and> length r \<le> 15))"

subsection \<open>Date of birth\<close>

definition dobLabel :: regex where
  "dobLabel =
     alts [seqs [strRx ''date'', star space, strRx ''of'', star space, strRx ''birth''],
           strRx ''dob'', strRx ''d.o.b.'', seqs [strRx ''birth'', star space, strRx ''date''],
           strRx ''born'', strRx ''birth'']"

definition dobSep :: regex where
  "dobSep = opt (cls [CChar CHR '':'', CChar CHR ''-'', CChar CHR ''=''])"

definition dateSep :: regex where
  "dateSep = cls [CChar CHR ''/'', CChar CHR ''-'', CChar CHR ''.'']"

definition numericDate :: regex where
  "numericDate = seqs [rep 1 2 (cls [r09]), dateSep, rep 1 2 (cls [r09]), dateSep, rep 2 4 (cls [r09])]"

definition dobPatterns :: "RegExp list" where
  "dobPatterns =
     [RegExp (seqs [dobLabel, star space, dobSep, star space, Group 1 numericDate]) ''gi'',
      RegExp (seqs [dobLabel, star space, dobSep, star space,
                    Group 1 (seqs [plus (cls [rAZ, raz]), plus space, rep 1 2 digit,
                                   opt (lit CHR '',''), plus space, rep 4 4 digit])]) ''gi'',
      RegExp (seqs [opt (cls [raz]), alts [strRx ''dob'', strRx ''birth'', strRx ''born''],
                    star space, dobSep, star space, Group 1 numericDate]) ''gi'']"

fun dobFromPatterns :: "RegExp list \<Rightarrow> string \<Rightarrow> string" where
  "dobFromPatterns [] originalText = []"
| "dobFromPatterns (pattern # patterns) originalText =
     (case exec pattern originalText of
        None \<Rightarrow> dobFromPatterns patterns originalText
      | Some match \<Rightarrow>
          (case orElse (groupAt match 1) (groupAt match 0) of
             None \<Rightarrow> dobFromPatterns patterns originalText
           | Some v \<Rightarrow> if v \<noteq> [] then trim v else dobFromPatterns patterns originalText))"

definition datePattern :: RegExp where
  "datePattern =
     RegExp (seqs [WordB,
        Group 1 (alts [seqs [opt (lit CHR ''0''), cls [CRange CHR ''1'' CHR ''9'']],
                       seqs [cls [CChar CHR ''1'', CChar CHR ''2''], cls [r09]],
                       seqs [lit CHR ''3'', cls [CChar CHR ''0'', CChar CHR ''1'']]]),
        dateSep,
        Group 2 (alts [seqs [opt (lit CHR ''0''), cls [CRange CHR ''1'' CHR ''9'']],
                       seqs [lit CHR ''1'', cls [CRange CHR ''0'' CHR ''2'']]]),
        dateSep,
        Group 3 (alts [seqs [strRx ''19'', cls [CRange CHR ''4'' CHR ''9''], digit],
                       seqs [strRx ''200'', cls [r09]],
                       seqs [strRx ''201'', cls [CRange CHR ''0'' CHR ''5'']]]),
        WordB]) ''g''"

definition extractDateOfBirth :: "string \<Rightarrow> string" where
  "extractDateOfBirth originalText =
     (let dateOfBirth = dobFromPatterns dobPatterns originalText in
      if dateOfBirth = [] then
        (case match_g originalText datePattern of
           None \<Rightarrow> dateOfBirth
         | Some dateMatches \<Rightarrow>
             (case dateMatches of
                [] \<Rightarrow> dateOfBirth
              | first # _ \<Rightarrow> trim first))
      else dateOfBirth)"

subsection \<open>Portfolio link\<close>

definition linkSep :: regex where
  "linkSep = opt (cls [CChar CHR '':'', CChar CHR ''-'', CChar CHR ''=''])"

definition portfolioPattern :: RegExp where
  "portfolioPattern =
     RegExp (seqs [alts [strRx ''portfolio'', strRx ''website'',
                         seqs [strRx ''personal'', star space, strRx ''site''], strRx ''web''],
                   star space, linkSep, star space,
                   Group 1 (seqs [strRx ''http'', opt (lit CHR ''s''), strRx ''://'',
                                  plus (ncls [CSpace, CChar LF, CChar CR, CChar CHR '',''])])]) ''gi''"

text \<open>
  \<open>portfolioMatch = originalText.match(portfolioPattern)\<close>, the pattern having the
  flag \<open>g\<close>, and \<open>portfolioMatch[1] || portfolioMatch[0]\<close>. A result of \<open>match\<close>
  that is not null has a first element, so the value assigned is a string.
\<close>

definition extractPortfolio :: "string \<Rightarrow> string" where
  "extractPortfolio originalText =
     (case match_g originalText portfolioPattern of
        None \<Rightarrow> []
      | Some portfolioMatch \<Rightarrow>
          (case orElse (elemAt portfolioMatch 1) (elemAt portfolioMatch 0) of
             None \<Rightarrow> []
           | Some v \<Rightarrow> v))"

subsection \<open>Experience\<close>

definition yearsUnit :: regex where
  "yearsUnit = alts [seqs [strRx ''year'', opt (lit CHR ''s'')], seqs [strRx ''yr'', opt (lit CHR ''s'')],
                     strRx ''yr'']"

definition decimalNumber :: regex where
  "decimalNumber = seqs [plus (cls [r09]), opt (seqs [lit CHR ''.'', plus (cls [r09])])]"

definition experiencePatterns :: "RegExp list" where
  "experiencePatterns =
     [RegExp (seqs [alts [strRx ''experience'', strRx ''exp'',
                          seqs [strRx ''total'', star space, strRx ''experience''],
                          seqs [strRx ''year'', opt (lit CHR ''s''), star space, strRx ''of'', star space,
                                strRx ''experience''],
                          seqs [strRx ''work'', star space, strRx ''experience'']],
                    star space, opt (cls [CChar CHR '':'']), star space, Group 1 decimalNumber,
                    star space, yearsUnit]) ''gi'',
      RegExp (seqs [Group 1 decimalNumber, star space, yearsUnit, star space,
                    opt (seqs [strRx ''of'', star space]),
                    alts [strRx ''experience'', strRx ''exp'']]) ''gi'',
      RegExp (seqs [alts [strRx ''experience'', strRx ''exp''], star space, opt (cls [CChar CHR '':'']),
                    star space, Group 1 decimalNumber, star space, yearsUnit]) ''gi'']"

fun experienceFromPatterns :: "RegExp list \<Rightarrow> string \<Rightarrow> string" where
  "experienceFromPatterns [] originalText = []"
| "experienceFromPatterns (pattern # patterns) originalText =
     (case match_g originalText pattern of
        None \<Rightarrow> experienceFromPatterns patterns originalText
      | Some match \<Rightarrow>
          (case elemAt match 0 of
             None \<Rightarrow> experienceFromPatterns patterns originalText
           | Some first \<Rightarrow>
               (case exec (RegExp (Group 1 decimalNumber) []) first of
                  None \<Rightarrow> experienceFromPatterns patterns originalText
                | Some expMatch \<Rightarrow> templ (groupAt expMatch 1) @ '' years'')))"

definition extractExperience :: "string \<Rightarrow> string" where
  "extractExperience originalText = experienceFromPatterns experiencePatterns originalText"

subsection \<open>Role\<close>

definition roleLabel :: regex where
  "roleLabel =
     alts [seqs [strRx ''current'', star space, strRx ''role''], strRx ''position'',
           seqs [strRx ''job'', star space, strRx ''title''], strRx ''designation'', strRx ''role'',
           strRx ''title'']"

definition rolePatterns :: "RegExp list" where
  "rolePatterns =
     [RegExp (seqs [roleLabel, star space, opt (cls [CChar CHR '':'']), star space,
                    Group 1 (seqs [plus (cls [rAZ, raz, CSpace, CChar CHR ''&'']),
                       alts [strRx ''engineer'', strRx ''developer'', strRx ''scientist'',
                             strRx ''analyst'', strRx ''manager'', strRx ''architect'',
                             strRx ''specialist'', strRx ''consultant'', strRx ''lead'',
                             strRx ''senior'', strRx ''junior'', strRx ''associate'']])]) ''gi'',
      RegExp (alts [seqs [strRx ''software'', star space, strRx ''engineer''],
                    seqs [strRx ''data'', star space, strRx ''scientist''],
                    seqs [strRx ''full'', star space, strRx ''stack''],
                    strRx ''frontend'', strRx ''backend'', strRx ''devops'',
                    seqs [strRx ''ml'', star space, strRx ''engineer''],
                    seqs [strRx ''ai'', star space, strRx ''engineer''],
                    seqs [strRx ''web'', star space, strRx ''developer''],
                    seqs [strRx ''mobile'', star space, strRx ''developer'']]) ''gi'',
      RegExp (seqs [alts [strRx ''senior'', strRx ''junior'', strRx ''lead'', strRx ''principal''],
                    star space, opt (seqs [strRx ''software'', star space]),
                    alts [strRx ''engineer'', strRx ''developer'', strRx ''scientist'',
                          strRx ''analyst'', strRx ''architect'']]) ''gi'']"

definition commonRoles :: "string list" where
  "commonRoles =
     [''Software Engineer'', ''Software Developer'', ''Full Stack Developer'',
      ''Frontend Developer'', ''Backend Developer'', ''Data Scientist'',
      ''Data Analyst'', ''ML Engineer'', ''AI Engineer'', ''DevOps Engineer'',
      ''Mobile Developer'', ''Web Developer'', ''System Architect'',
      ''Product Manager'', ''Project Manager'', ''Tech Lead'', ''Senior Engineer'',
      ''Junior Engineer'', ''Associate Engineer'']"

text \<open>\<open>word.charAt(0).toUpperCase() + word.slice(1).toLowerCase()\<close>\<close>

definition capitalize :: "string \<Rightarrow> string" where
  "capitalize word = toUpperCase (take 1 word) @ toLowerCase (drop 1 word)"

fun roleFromPatterns :: "RegExp list \<Rightarrow> string \<Rightarrow> string" where
  "roleFromPatterns [] originalText = []"
| "roleFromPatterns (pattern # patterns) originalText =
     (case match_g originalText pattern of
        None \<Rightarrow> roleFromPatterns patterns originalText
      | Some matches \<Rightarrow>
          (case elemAt matches 0 of
             None \<Rightarrow> roleFromPatterns patterns originalText
           | Some first \<Rightarrow>
               (let role = trim (removeAll first
                             (RegExp (seqs [roleLabel, star space, opt (cls [CChar CHR '':'']), star space]) ''gi''))
                in if 3 < length role \<and> length role < 50
                   then joinChar CHR '' '' (map capitalize (splitChar CHR '' '' role))
                   else roleFromPatterns patterns originalText)))"

fun roleFromCommonRoles :: "string list \<Rightarrow> string \<Rightarrow> string" where
  "roleFromCommonRoles [] textLower = []"
| "roleFromCommonRoles (commonRole # roles) textLower =
     (let roleLower = toLowerCase commonRole in
      if includes_str (substring textLower 0 2000) roleLower then commonRole
      else roleFromCommonRoles roles textLower)"

text \<open>
  The keyword search over the first fifteen lines: \<open>roleWords\<close> collects the
  alphabetic words of more than two letters up to the first that holds a keyword.
\<close>

definition hasRoleKeyword :: "string \<Rightarrow> bool" where
  "hasRoleKeyword w =
     (includes_str (toLowerCase w) ''engineer'' \<or> includes_str (toLowerCase w) ''developer''
      \<or> includes_str (toLowerCase w) ''scientist'' \<or> includes_str (toLowerCase w) ''analyst'')"

fun roleWords :: "string list \<Rightarrow> string list" where
  "roleWords [] = []"
| "roleWords (word # words) =
     (if 2 < length word \<and> test (RegExp (seqs [Bol, plus (cls [rAZ, raz]), Eol]) []) word then
        (if hasRoleKeyword word then [word] else word # roleWords words)
      else roleWords words)"

fun roleFromLines :: "string list \<Rightarrow> string" where
  "roleFromLines [] = []"
| "roleFromLines (l # ls) =
     (let line = toLowerCase l in
      if includes_str line ''engineer'' \<or> includes_str line ''developer''
         \<or> includes_str line ''scientist'' \<or> includes_str line ''analyst''
         \<or> includes_str line ''architect'' \<or> includes_str line ''manager''
      then
        (let words = split l (RegExp (plus space) []);
             found = roleWords words
         in if 0 < length found \<and> length found < 5 then joinChar CHR '' '' found
            else roleFromLines ls)
      else roleFromLines ls)"

definition extractRole :: "string \<Rightarrow> string list \<Rightarrow> string" where
  "extractRole originalText lines =
     (let role1 = roleFromPatterns rolePatterns originalText;
          role2 = (if role1 = [] then roleFromCommonRoles commonRoles (toLowerCase originalText)
                   else role1)
      in if role2 = [] then roleFromLines (take 15 lines) else role2)"

subsection \<open>Location\<close>

definition capWords :: regex where
  "capWords = seqs [cls [rAZ], plus (cls [raz]), star (seqs [plus space, cls [rAZ], plus (cls [raz])])]"

definition locationPatterns :: "RegExp list" where
  "locationPatterns =
     [RegExp (seqs [alts [strRx ''location'', strRx ''address'', strRx ''city'', strRx ''residence'',
                          seqs [strRx ''residing'', star space, strRx ''at''], strRx ''place'',
                          strRx ''native''],
                    star space, linkSep, star space,
                    Group 1 (seqs [plus (cls [rAZ, raz, CSpace, CChar CHR '','']),
                                   rep 0 3 (seqs [lit CHR '','', star space, plus (cls [rAZ, raz, CSpace])])])]) ''gi'',
      RegExp (seqs [alts [Bol, lit LF], star space,
                    alts [seqs [strRx ''lives'', star space, strRx ''in''],
                          seqs [strRx ''based'', star space, strRx ''in''], strRx ''from'', strRx ''at''],
                    star space, Group 1 (plus (cls [rAZ, raz, CSpace, CChar CHR '','']))]) ''i'',
      RegExp (seqs [WordB, Group 1 (seqs [capWords, lit CHR '','', star space, capWords]), WordB]) []]"

text \<open>
  \<open>match[1]\<close> for \<open>match = originalText.match(pattern)\<close>: the second match when the
  pattern has the flag \<open>g\<close>, group 1 of the first match otherwise; undefined also
  when \<open>match\<close> is null.
\<close>

definition matchIndex1 :: "string \<Rightarrow> RegExp \<Rightarrow> string option" where
  "matchIndex1 s re =
     (if CHR ''g'' \<in> set (flags re) then
        (case match_g s re of None \<Rightarrow> None | Some ms \<Rightarrow> elemAt ms 1)
      else
        (case exec re s of None \<Rightarrow> None | Some m \<Rightarrow> groupAt m 1))"

fun locationFromPatterns :: "RegExp list \<Rightarrow> string \<Rightarrow> string" where
  "locationFromPatterns [] originalText = []"
| "locationFromPatterns (pattern # patterns) originalText =
     (case matchIndex1 originalText pattern of
        None \<Rightarrow> locationFromPatterns patterns originalText
      | Some g \<Rightarrow>
          if g \<noteq> [] then
            (let loc = trim g in
             if 3 < length loc \<and> length loc < 100
                \<and> \<not> includes_str (toLowerCase loc) ''engineer''
                \<and> \<not> includes_str (toLowerCase loc) ''developer''
             then loc
             else locationFromPatterns patterns originalText)
          else locationFromPatterns patterns originalText)"

definition extractLocation :: "string \<Rightarrow> string" where
  "extractLocation originalText = locationFromPatterns locationPatterns originalText"

subsection \<open>LinkedIn and GitHub links\<close>

definition handleChars :: regex where
  "handleChars = plus (cls [rAZ, raz, r09, CChar CHR ''_'', CChar CHR ''-''])"

definition urlPrefix :: regex where
  "urlPrefix = seqs [opt (seqs [strRx ''http'', opt (lit CHR ''s''), strRx ''://'']), opt (strRx ''www.'')]"

definition linkToken :: regex where
  "linkToken = plus (ncls [CSpace, CChar LF, CChar CR, CChar CHR '',''])"

definition linkedinLabel :: regex where
  "linkedinLabel = seqs [alts [strRx ''linkedin'', strRx ''lin''], star space, linkSep, star space]"

definition linkedinPatterns :: "RegExp list" where
  "linkedinPatterns =
     [RegExp (seqs [urlPrefix, strRx ''linkedin.com/in/'', handleChars]) ''gi'',
      RegExp (seqs [alts [strRx ''linkedin'', strRx ''lin''], star space, linkSep, star space,
                    Group 1 linkToken]) ''i'']"

definition githubLabel :: regex where
  "githubLabel = seqs [alts [strRx ''github'', strRx ''git''], star space, linkSep, star space]"

definition githubPatterns :: "RegExp list" where
  "githubPatterns =
     [RegExp (seqs [urlPrefix, strRx ''github.com/'', handleChars]) ''gi'',
      RegExp (seqs [alts [strRx ''github'', strRx ''git''], star space, linkSep, star space,
                    Group 1 linkToken]) ''i'']"

text \<open>
  The two loops have the same text up to the label pattern removed from the match,
  the site looked for and the base of the profile address.
\<close>

fun profileLink :: "regex \<Rightarrow> string \<Rightarrow> string \<Rightarrow> RegExp list \<Rightarrow> string \<Rightarrow> string" where
  "profileLink label site base [] originalText = []"
| "profileLink label site base (pattern # patterns) originalText =
     (case exec pattern originalText of
        None \<Rightarrow> profileLink label site base patterns originalText
      | Some match \<Rightarrow>
          (case orElse (groupAt match 1) (groupAt match 0) of
             None \<Rightarrow> profileLink label site base patterns originalText
           | Some v \<Rightarrow>
               (let link = trim (removeFirst v (RegExp label ''i'')) in
                if includes_str link site then
                  (if \<not> startsWith link ''http'' then ''https://'' @ link else link)
                else if 3 < length link \<and> \<not> includes_str link ''@'' \<and> \<not> includes_str link ''.''
                then base @ link
                else profileLink label site base patterns originalText)))"

definition extractLinkedin :: "string \<Rightarrow> string" where
  "extractLinkedin originalText =
     profileLink linkedinLabel ''linkedin.com'' ''https://www.linkedin.com/in/'' linkedinPatterns originalText"

definition extractGithub :: "string \<Rightarrow> string" where
  "extractGithub originalText =
     profileLink githubLabel ''github.com'' ''https://github.com/'' githubPatterns originalText"

subsection \<open>Summary\<close>

definition summaryLabel :: regex where
  "summaryLabel =
     alts [strRx ''summary'', strRx ''objective'',
           seqs [strRx ''professional'', star space, strRx ''profile''],
           seqs [strRx ''about'', star space, strRx ''me'']]"

definition summaryPatterns :: "RegExp list" where
  "summaryPatterns =
     [RegExp (seqs [summaryLabel, star space, linkSep, star space,
                    Group 1 (seqs [repLazy 30 1000 (cls [CSpace, CNonSpace]),
                       Ahead (seqs [lit LF, star space,
                          alts [strRx ''experience'', strRx ''skills'', strRx ''education'',
                                strRx ''projects'', strRx ''work'', strRx ''employment'',
                                strRx ''certifications'', strRx ''languages'', strRx ''hobbies'',
                                strRx ''personal'', Eol]])])]) ''gi'',
      RegExp (seqs [alts [strRx ''summary'', strRx ''objective'', strRx ''profile''],
                    star space, linkSep, star space,
                    Group 1 (seqs [plus (ncls [CChar LF, CChar CR]),
                                   rep 1 5 (seqs [lit LF, plus (ncls [CChar LF, CChar CR])])])]) ''gi'']"

fun summaryFromPatterns :: "RegExp list \<Rightarrow> string \<Rightarrow> string" where
  "summaryFromPatterns [] originalText = []"
| "summaryFromPatterns (pattern # patterns) originalText =
     (case exec pattern originalText of
        None \<Rightarrow> summaryFromPatterns patterns originalText
      | Some match \<Rightarrow>
          (case orElse (groupAt match 1) (groupAt match 0) of
             None \<Rightarrow> summaryFromPatterns patterns originalText
           | Some v \<Rightarrow>
               (let summary = trim (removeAll v
                                (RegExp (seqs [summaryLabel, star space, linkSep, star space]) ''gi''))
                in if 20 < length summary then summary
                   else summaryFromPatterns patterns originalText)))"

definition extractSummary :: "string \<Rightarrow> string" where
  "extractSummary originalText = summaryFromPatterns summaryPatterns originalText"

subsection \<open>The profile\<close>

record links =
  linkedin :: string
  github :: string
  portfolio :: string

record profile =
  name :: string
  email :: string
  contactNumber :: string
  dateOfBirth :: string
  experience :: string
  role :: string
  location :: string
  skills :: "string list"
  education :: string
  summary :: string
  links :: links

text \<open>The initial value of \<open>data\<close>.\<close>

definition emptyProfile :: profile where
  "emptyProfile =
     \<lparr>name = [], email = [], contactNumber = [], dateOfBirth = [], experience = [], role = [],
      location = [], skills = [], education = [], summary = [],
      links = \<lparr>linkedin = [], github = [], portfolio = []\<rparr>\<rparr>"

text \<open>
  \<open>extractResumeData(text)\<close>: \<open>text\<close> is a string, or null or undefined (\<open>None\<close>).
  The result is the profile, or the error raised on the way.
\<close>

definition extractResumeData :: "string option \<Rightarrow> js_error + profile" where
  "extractResumeData text =
     (case text of
        None \<Rightarrow> Inr emptyProfile
      | Some originalText \<Rightarrow>
          if length originalText = 0 then Inr emptyProfile
          else
            (let lines = linesOf originalText in
             case extractEmail originalText of
               Inl e \<Rightarrow> Inl e
             | Inr emailFound \<Rightarrow>
                 Inr \<lparr>name = extractName originalText lines,
                      email = emailFound,
                      contactNumber = extractContactNumber originalText,
                      dateOfBirth = extractDateOfBirth originalText,
                      experience = extractExperience originalText,
                      role = extractRole originalText lines,
                      location = extractLocation originalText,
                      skills = [],
                      education = [],
                      summary = extractSummary originalText,
                      links = \<lparr>linkedin = extractLinkedin originalText,
                               github = extractGithub originalText,
                               portfolio = extractPortfolio originalText\<rparr>\<rparr>))"

section \<open>Evaluation of the string functions\<close>

lemma codeUnit_Char [simp]:
  "codeUnit (Char b0 b1 b2 b3 b4 b5 b6 b7) =
     of_bool b0 + 2 * (of_bool b1 + 2 * (of_bool b2 + 2 * (of_bool b3 + 2 * (of_bool b4
       + 2 * (of_bool b5 + 2 * (of_bool b6 + 2 * of_bool b7))))))"
  by (simp add: codeUnit_def)

lemmas char_class_defs =
  isUpperAZ_def isLowerAZ_def isDigit_def isUpperLatin_def isLowerLatin_def

lemma String_of_nat_4: "String_of_nat 4 = ''4''"
  by (simp add: digitChar_def)

lemma String_of_nat_2: "String_of_nat 2 = ''2''"
  by (simp add: digitChar_def)

lemma toLowerCase_February: "toLowerCase ''February'' = ''february''"
  by (simp add: toLowerCase_def toLowerChar_def char_class_defs)

lemma datePatterns_4_2:
  "datePatterns 4 2 ''February'' =
     [''04/02/'', ''04-02-'', ''02/04/'', ''02-04-'', ''04/02'', ''04-02'', ''02/04'', ''02-04'',
      ''0402'', ''0204'', ''04 february'', ''february 04'', ''4 february'', ''february 4'']"
  by (simp add: datePatterns_def dayStr_def monthStr_def padStart_def
      String_of_nat_4 String_of_nat_2 toLowerCase_February del: String_of_nat.simps)

lemma dayOrdinal_4: "dayOrdinal 4 = ''4th''"
  by (simp add: dayOrdinal_def String_of_nat_4 del: String_of_nat.simps)

section \<open>The matcher consumes words of the language\<close>

declare matchRx.simps [simp del]

lemma lang_Rep_nil: "lo = 0 \<or> hi = Some 0 \<Longrightarrow> [] \<in> lang ic (Rep lo hi g a)"
  by (cases hi) (auto intro!: exI[of _ "[]"])

lemma repLower_step: "hi \<noteq> Some 0 \<Longrightarrow> repLower lo hi \<le> Suc (repLower (lo - 1) (decHi hi))"
  by (cases hi) auto

lemma lang_Rep_cons:
  assumes "w1 \<in> lang ic a" and "w \<in> lang ic (Rep (lo - 1) (decHi hi) g a)" and "hi \<noteq> Some 0"
  shows "w1 @ w \<in> lang ic (Rep lo hi g a)"
proof -
  from assms(2) obtain ws where
    ws: "w = concat ws" "set ws \<subseteq> lang ic a" "repLower (lo - 1) (decHi hi) \<le> length ws"
    by auto
  have "w1 @ w = concat (w1 # ws)" using ws by simp
  moreover have "set (w1 # ws) \<subseteq> lang ic a" using ws assms(1) by simp
  moreover have "repLower lo hi \<le> length (w1 # ws)"
    using repLower_step[OF assms(3), of lo] ws(3) by simp
  ultimately show ?thesis by (simp del: repLower.simps, intro exI[of _ "w1 # ws"], simp)
qed

lemma consumesI:
  "k st' = Some res \<Longrightarrow> rest st = w @ rest st' \<Longrightarrow> w \<in> lang ic r \<Longrightarrow> consumes ic r st k res"
  unfolding consumes_def by blast

lemma consumes_stop:
  "k st = Some res \<Longrightarrow> lo = 0 \<or> hi = Some 0 \<Longrightarrow> consumes ic (Rep lo hi g a) st k res"
  unfolding consumes_def using lang_Rep_nil[of lo hi ic g a] by (intro exI[of _ st] conjI exI[of _ "[]"]) simp_all

lemma consumes_step:
  assumes "consumes ic a st k1 res"
    and "\<And>st1. k1 st1 = Some res \<Longrightarrow> consumes ic (Rep (lo - 1) (decHi hi) g a) st1 k res"
    and "hi \<noteq> Some 0"
  shows "consumes ic (Rep lo hi g a) st k res"
proof -
  from assms(1) obtain st1 w1 where
    s1: "k1 st1 = Some res" "rest st = w1 @ rest st1" "w1 \<in> lang ic a"
    unfolding consumes_def by blast
  from assms(2)[OF s1(1)] obtain st2 w2 where
    s2: "k st2 = Some res" "rest st1 = w2 @ rest st2" "w2 \<in> lang ic (Rep (lo - 1) (decHi hi) g a)"
    unfolding consumes_def by blast
  have "rest st = (w1 @ w2) @ rest st2" using s1 s2 by simp
  moreover have "w1 @ w2 \<in> lang ic (Rep lo hi g a)" by (rule lang_Rep_cons[OF s1(3) s2(3) assms(3)])
  ultimately show ?thesis unfolding consumes_def using s2(1) by blast
qed

lemma matchRx_consumes:
  "matchRx ic ml r st k = Some res \<Longrightarrow> consumes ic r st k res"
proof (induction ic ml r st k arbitrary: res rule: matchRx.induct)
  case (1 ic ml neg items st k)
  then show ?case
    by (auto simp: matchRx.simps consumes_def split: list.splits if_splits)
next
  case (2 ic ml st k)
  then show ?case by (auto simp: matchRx.simps consumes_def)
next
  case (3 ic ml a b st k)
  from "3.prems" have "matchRx ic ml a st (\<lambda>st'. matchRx ic ml b st' k) = Some res"
    by (simp add: matchRx.simps)
  from "3.IH"(2)[OF this] obtain st1 w1 where
    s1: "matchRx ic ml b st1 k = Some res" "rest st = w1 @ rest st1" "w1 \<in> lang ic a"
    unfolding consumes_def by blast
  from "3.IH"(1)[OF s1(1)] obtain st2 w2 where
    s2: "k st2 = Some res" "rest st1 = w2 @ rest st2" "w2 \<in> lang ic b"
    unfolding consumes_def by blast
  have "rest st = (w1 @ w2) @ rest st2" using s1 s2 by simp
  moreover have "w1 @ w2 \<in> lang ic (Seq a b)" using s1 s2 by auto
  ultimately show ?case using s2(1) by (blast intro: consumesI)
next
  case (4 ic ml a b st k)
  show ?case
  proof (cases "matchRx ic ml a st k")
    case None
    with "4.prems" have "matchRx ic ml b st k = Some res" by (simp add: matchRx.simps)
    from "4.IH"(2)[OF None this] show ?thesis by (auto simp: consumes_def)
  next
    case (Some r)
    with "4.prems" have "matchRx ic ml a st k = Some res" by (simp add: matchRx.simps)
    from "4.IH"(1)[OF this] show ?thesis by (auto simp: consumes_def)
  qed
next
  case (5 ic ml lo hi a st k)
  let ?K = "\<lambda>st'. if length (rest st') < length (rest st)
                  then matchRx ic ml (Rep 0 (decHi hi) True a) st' k else None"
  show ?case
  proof (cases "hi = Some 0")
    case True
    with "5.prems" have "k st = Some res" by (simp add: matchRx.simps)
    then show ?thesis using True by (blast intro: consumes_stop)
  next
    case hi: False
    show ?thesis
    proof (cases "0 < lo")
      case lo: True
      from "5.prems" hi lo
      have m: "matchRx ic ml a st (\<lambda>st'. matchRx ic ml (Rep (lo - 1) (decHi hi) True a) st' k) = Some res"
        by (simp add: matchRx.simps)
      show ?thesis
        by (rule consumes_step[OF "5.IH"(2)[OF hi lo m] _ hi]) (rule "5.IH"(1)[OF hi lo])
    next
      case lo: False
      from "5.prems" hi lo
      have c: "(case matchRx ic ml a st ?K of Some r \<Rightarrow> Some r | None \<Rightarrow> k st) = Some res"
        by (simp add: matchRx.simps(5))
      show ?thesis
      proof (cases "matchRx ic ml a st ?K")
        case None
        with c have "k st = Some res" by simp
        then show ?thesis using lo by (blast intro: consumes_stop)
      next
        case (Some r)
        with c have m: "matchRx ic ml a st ?K = Some res" by simp
        show ?thesis
        proof (rule consumes_step[OF "5.IH"(4)[OF hi lo m] _ hi])
          fix st1 assume "?K st1 = Some res"
          then have "length (rest st1) < length (rest st)"
            and "matchRx ic ml (Rep 0 (decHi hi) True a) st1 k = Some res"
            by (auto split: if_splits)
          then have "consumes ic (Rep 0 (decHi hi) True a) st1 k res"
            by (rule "5.IH"(3)[OF hi lo])
          then show "consumes ic (Rep (lo - 1) (decHi hi) True a) st1 k res" using lo by simp
        qed
      qed
    qed
  qed
next
  case (6 ic ml lo hi a st k)
  let ?K = "\<lambda>st'. if length (rest st') < length (rest st)
                  then matchRx ic ml (Rep 0 (decHi hi) False a) st' k else None"
  show ?case
  proof (cases "hi = Some 0")
    case True
    with "6.prems" have "k st = Some res" by (simp add: matchRx.simps)
    then show ?thesis using True by (blast intro: consumes_stop)
  next
    case hi: False
    show ?thesis
    proof (cases "0 < lo")
      case lo: True
      from "6.prems" hi lo
      have m: "matchRx ic ml a st (\<lambda>st'. matchRx ic ml (Rep (lo - 1) (decHi hi) False a) st' k) = Some res"
        by (simp add: matchRx.simps)
      show ?thesis
        by (rule consumes_step[OF "6.IH"(2)[OF hi lo m] _ hi]) (rule "6.IH"(1)[OF hi lo])
    next
      case lo: False
      from "6.prems" hi lo
      have c: "(case k st of Some r \<Rightarrow> Some r | None \<Rightarrow> matchRx ic ml a st ?K) = Some res"
        by (simp add: matchRx.simps(6))
      show ?thesis
      proof (cases "k st")
        case (Some r)
        with c have "k st = Some res" by simp
        then show ?thesis using lo by (blast intro: consumes_stop)
      next
        case None
        with c have m: "matchRx ic ml a st ?K = Some res" by simp
        show ?thesis
        proof (rule consumes_step[OF "6.IH"(4)[OF hi lo None m] _ hi])
          fix st1 assume "?K st1 = Some res"
          then have "length (rest st1) < length (rest st)"
            and "matchRx ic ml (Rep 0 (decHi hi) False a) st1 k = Some res"
            by (auto split: if_splits)
          then have "consumes ic (Rep 0 (decHi hi) False a) st1 k res"
            by (rule "6.IH"(3)[OF hi lo None])
          then show "consumes ic (Rep (lo - 1) (decHi hi) False a) st1 k res" using lo by simp
        qed
      qed
    qed
  qed
next
  case (7 ic ml n a st k)
  from "7.prems" have "matchRx ic ml a st
       (\<lambda>st'. k (MState (prevChar st') (rest st')
                   ((n, take (length (rest st) - length (rest st')) (rest st)) # caps st'))) = Some res"
    by (simp add: matchRx.simps)
  from "7.IH"[OF this] obtain st1 w1 where
    s1: "k (MState (prevChar st1) (rest st1)
           ((n, take (length (rest st) - length (rest st1)) (rest st)) # caps st1)) = Some res"
      "rest st = w1 @ rest st1" "w1 \<in> lang ic a"
    unfolding consumes_def by blast
  have "rest st = w1 @ rest (MState (prevChar st1) (rest st1)
           ((n, take (length (rest st) - length (rest st1)) (rest st)) # caps st1))"
    using s1(2) by simp
  moreover have "w1 \<in> lang ic (Group n a)" using s1(3) by simp
  ultimately show ?case unfolding consumes_def using s1(1) by blast
next
  case (8 ic ml st k)
  then show ?case by (auto simp: matchRx.simps consumes_def split: if_splits)
next
  case (9 ic ml st k)
  then show ?case by (auto simp: matchRx.simps consumes_def split: if_splits)
next
  case (10 ic ml st k)
  then show ?case by (auto simp: matchRx.simps consumes_def split: if_splits)
next
  case (11 ic ml a st k)
  from "11.prems" obtain st1 where
    "k (MState (prevChar st) (rest st) (caps st1)) = Some res"
    by (auto simp: matchRx.simps split: option.splits)
  moreover have "rest st = [] @ rest (MState (prevChar st) (rest st) (caps st1))" by simp
  moreover have "[] \<in> lang ic (Ahead a)" by simp
  ultimately show ?case unfolding consumes_def by blast
qed

section \<open>The email scan never raises\<close>

lemma matchHere_consumes:
  assumes "matchHere re prev s = Some st'"
  shows "\<exists>w. s = w @ rest st' \<and> w \<in> lang (ignoreCase re) (source re)"
proof -
  from assms have "consumes (ignoreCase re) (source re) (MState prev s []) Some st'"
    unfolding matchHere_def by (rule matchRx_consumes)
  then show ?thesis unfolding consumes_def by auto
qed

lemma matchHere_match:
  assumes "matchHere re prev s = Some st'"
  shows "take (length s - length (rest st')) s \<in> lang (ignoreCase re) (source re)"
    and "s = take (length s - length (rest st')) s @ rest st'"
proof -
  from matchHere_consumes[OF assms] obtain w where
    w: "s = w @ rest st'" "w \<in> lang (ignoreCase re) (source re)" by blast
  have "take (length s - length (rest st')) s = w" unfolding w(1) by simp
  with w show "take (length s - length (rest st')) s \<in> lang (ignoreCase re) (source re)"
    and "s = take (length s - length (rest st')) s @ rest st'" by simp_all
qed

lemma matchAllFrom_lang:
  "m \<in> set (matchAllFrom re prev s skip) \<Longrightarrow> m \<in> lang (ignoreCase re) (source re)"
proof (induction s arbitrary: prev skip)
  case Nil
  show ?case
  proof (cases "matchHere re prev []")
    case None
    with Nil show ?thesis by (simp split: if_splits)
  next
    case (Some st')
    with Nil have "m = []" by (simp split: if_splits)
    with matchHere_match(1)[OF Some] show ?thesis by simp
  qed
next
  case (Cons c cs)
  show ?case
  proof (cases "0 < skip")
    case True
    with Cons.prems have "m \<in> set (matchAllFrom re (Some c) cs (skip - 1))" by simp
    then show ?thesis by (rule Cons.IH)
  next
    case False
    show ?thesis
    proof (cases "matchHere re prev (c # cs)")
      case None
      with Cons.prems False have "m \<in> set (matchAllFrom re (Some c) cs 0)" by simp
      then show ?thesis by (rule Cons.IH)
    next
      case (Some st')
      with Cons.prems False have
        "m = take (length (c # cs) - length (rest st')) (c # cs)
         \<or> m \<in> set (matchAllFrom re (Some c) cs (length (c # cs) - length (rest st') - 1))"
        by simp
      then show ?thesis
        using matchHere_match(1)[OF Some] Cons.IH by blast
    qed
  qed
qed

lemma match_g_lang:
  "match_g s re = Some ms \<Longrightarrow> m \<in> set ms \<Longrightarrow> m \<in> lang (ignoreCase re) (source re)"
  unfolding match_g_def by (auto split: list.splits dest: matchAllFrom_lang)

lemmas rx_defs = lit_def cls_def ncls_def opt_def star_def
  plus_def rep_def repMin_def repLazy_def digit_def space_def LF_def CR_def rAZ_def raz_def r09_def

lemmas rx_build = seqs.simps alts.simps strRx.simps rx_defs

lemma lang_Seq_right:
  "w \<in> lang ic (Seq a b) \<Longrightarrow> (\<And>v. v \<in> lang ic b \<Longrightarrow> c \<in> set v) \<Longrightarrow> c \<in> set w"
  by auto

lemma lang_Seq_left:
  "w \<in> lang ic (Seq a b) \<Longrightarrow> (\<And>u. u \<in> lang ic a \<Longrightarrow> c \<in> set u) \<Longrightarrow> c \<in> set w"
  by auto

lemma lang_lit: "w \<in> lang False (Cls False [CChar c]) \<Longrightarrow> c \<in> set w"
  by (auto simp: clsMatch_def)

lemma emailRegex_at:
  "w \<in> lang (ignoreCase emailRegex) (source emailRegex) \<Longrightarrow> CHR ''@'' \<in> set w"
  apply (simp only: emailRegex_def ignoreCase_def RegExp.sel rx_build alnum_def)
  apply (erule lang_Seq_right)
  apply (erule lang_Seq_right)
  apply (erule lang_Seq_right)
  apply (erule lang_Seq_left)
  apply (rule lang_lit)
  apply simp
  done

lemma in_set_dropWhile: "c \<in> set s \<Longrightarrow> \<not> P c \<Longrightarrow> c \<in> set (dropWhile P s)"
  by (induction s) auto

lemma in_set_trim: "c \<in> set s \<Longrightarrow> \<not> isSpace c \<Longrightarrow> c \<in> set (trim s)"
  unfolding trim_def by (simp add: in_set_dropWhile)

lemma at_toLowerCase: "CHR ''@'' \<in> set s \<Longrightarrow> CHR ''@'' \<in> set (toLowerCase s)"
proof -
  have "toLowerChar CHR ''@'' = CHR ''@''"
    by (simp add: toLowerChar_def isUpperAZ_def isUpperLatin_def)
  then show "CHR ''@'' \<in> set s \<Longrightarrow> CHR ''@'' \<in> set (toLowerCase s)"
    unfolding toLowerCase_def by (metis image_eqI set_map)
qed

lemma splitChar_not_Nil: "splitChar sep s \<noteq> []"
  by (induction s) (auto split: list.splits)

lemma splitChar_second: "sep \<in> set s \<Longrightarrow> \<exists>p d ps. splitChar sep s = p # d # ps"
proof (induction s)
  case Nil
  then show ?case by simp
next
  case (Cons c cs)
  show ?case
  proof (cases "c = sep")
    case True
    then show ?thesis using splitChar_not_Nil[of sep cs] by (cases "splitChar sep cs") auto
  next
    case False
    with Cons.prems have "sep \<in> set cs" by simp
    from Cons.IH[OF this] obtain p d ps where "splitChar sep cs = p # d # ps" by blast
    with False show ?thesis by simp
  qed
qed

lemma someIncluded_Some: "\<exists>b. someIncluded (Some d) fps = Inr b"
  by (induction fps) auto

lemma keepEmail_total: "CHR ''@'' \<in> set e \<Longrightarrow> \<exists>b. keepEmail e = Inr b"
proof -
  assume "CHR ''@'' \<in> set e"
  from splitChar_second[OF this] obtain p d ps where "splitChar CHR ''@'' e = p # d # ps" by blast
  then have "elemAt (splitChar CHR ''@'' e) 1 = Some d" by simp
  moreover obtain b where "someIncluded (Some d) falsePositives = Inr b"
    using someIncluded_Some by blast
  ultimately show ?thesis by (simp add: keepEmail_def)
qed

lemma filterEmails_total:
  "list_all (\<lambda>e. CHR ''@'' \<in> set e) es \<Longrightarrow> \<exists>kept. filterEmails es = Inr kept"
proof (induction es)
  case Nil
  then show ?case by simp
next
  case (Cons e es)
  then obtain b kept where "keepEmail e = Inr b" "filterEmails es = Inr kept"
    using keepEmail_total[of e] by auto
  then show ?case by simp
qed

lemma emailPrimary_total: "\<exists>e. emailPrimary t = Inr e"
proof (cases "match_g t emailRegex")
  case None
  then show ?thesis by (simp add: emailPrimary_def)
next
  case (Some ms)
  have "list_all (\<lambda>e. CHR ''@'' \<in> set e) (map (\<lambda>email. trim (toLowerCase email)) ms)"
  proof -
    have "CHR ''@'' \<in> set (trim (toLowerCase m))" if "m \<in> set ms" for m
    proof -
      from match_g_lang[OF Some that] have "CHR ''@'' \<in> set m" by (rule emailRegex_at)
      then have "CHR ''@'' \<in> set (toLowerCase m)" by (rule at_toLowerCase)
      then show ?thesis by (rule in_set_trim) (simp add: isSpace_def)
    qed
    then show ?thesis by (simp add: list_all_iff)
  qed
  from filterEmails_total[OF this] obtain kept where
    "filterEmails (map (\<lambda>email. trim (toLowerCase email)) ms) = Inr kept" by blast
  with Some show ?thesis by (cases kept) (simp_all add: emailPrimary_def)
qed

lemma extractEmail_total: "\<exists>e. extractEmail t = Inr e"
proof -
  obtain e where "emailPrimary t = Inr e" using emailPrimary_total by blast
  then show ?thesis by (simp add: extractEmail_def)
qed

text \<open>The fields of the result, for a non-empty text.\<close>

lemma extractResumeData_Some:
  assumes "t \<noteq> []"
  shows "\<exists>e. extractEmail t = Inr e \<and>
    extractResumeData (Some t) =
      Inr \<lparr>name = extractName t (linesOf t),
           email = e,
           contactNumber = extractContactNumber t,
           dateOfBirth = extractDateOfBirth t,
           experience = extractExperience t,
           role = extractRole t (linesOf t),
           location = extractLocation t,
           skills = [],
           education = [],
           summary = extractSummary t,
           links = \<lparr>linkedin = extractLinkedin t, github = extractGithub t,
                    portfolio = extractPortfolio t\<rparr>\<rparr>"
proof -
  obtain e where "extractEmail t = Inr e" using extractEmail_total by blast
  with assms show ?thesis by (simp add: extractResumeData_def Let_def)
qed

section \<open>Matches are no shorter than the shortest word\<close>







section \<open>Evaluation of the patterns\<close>

text \<open>
  The congruence rules keep the simplifier out of the pattern and of the continuation
  while a match is run.
\<close>

lemma matchRx_cong:
  "ic = ic' \<Longrightarrow> ml = ml' \<Longrightarrow> st = st' \<Longrightarrow> matchRx ic ml r st k = matchRx ic' ml' r st' k"
  by simp

lemma searchRx_cong: "prev = prev' \<Longrightarrow> s = s' \<Longrightarrow> searchRx re prev s = searchRx re prev' s'"
  by simp

lemma matchAllFrom_cong:
  "prev = prev' \<Longrightarrow> s = s' \<Longrightarrow> n = n' \<Longrightarrow> matchAllFrom re prev s n = matchAllFrom re prev' s' n'"
  by simp

lemma removeAllFrom_cong:
  "prev = prev' \<Longrightarrow> s = s' \<Longrightarrow> n = n' \<Longrightarrow> removeAllFrom re prev s n = removeAllFrom re prev' s' n'"
  by simp

lemma splitFrom_cong:
  "prev = prev' \<Longrightarrow> s = s' \<Longrightarrow> n = n' \<Longrightarrow> cur = cur'
   \<Longrightarrow> splitFrom re prev s n cur = splitFrom re prev' s' n' cur'"
  by simp

lemma matchHere_RegExp:
  "matchHere (RegExp r f) prev s =
     matchRx (CHR ''i'' \<in> set f) (CHR ''m'' \<in> set f) r (MState prev s []) Some"
  by (simp add: matchHere_def ignoreCase_def multiline_def)

lemmas char_eval = isDigit_def isSpace_def isWordChar_def isUpperAZ_def isLowerAZ_def isUpperLatin_def
  isLowerLatin_def isLineTerminator_def swapCase_def clsMatch_def atWordBoundary_def atLineStart_def
  atLineEnd_def toLowerCase_def toLowerChar_def

lemmas api_eval = matchRx.simps matchHere_RegExp exec_def test_def match_g_def
  removeFirst_def removeAll_def split_def groupAt_def orElse_def truthy_def templ_def trim_def

lemmas rx_cong = matchRx_cong searchRx_cong matchAllFrom_cong removeAllFrom_cong splitFrom_cong


lemmas email_defs = extractEmail_def emailPrimary_def emailRegex_def alnum_def keepEmail_def
  falsePositives_def emailWithLabelPatterns_def emailLabel_def emailAddress_def

lemmas contact_defs = extractContactNumber_def phonePatterns_def internationalFormat_def usFormat_def
  indianFormat_def genericDigits_def numbersWithSpaces_def phoneWithLabelPatterns_def
  phoneChars_def sepOpt_def cleanedOf_def yearPattern_def partOfEmail_def beforeMatch_def
  afterMatch_def substring_def clampIndex_def

lemmas portfolio_defs = extractPortfolio_def portfolioPattern_def linkSep_def


section \<open>Texts that are one run of digits\<close>












section \<open>The fields of the profile\<close>

lemma name_field:
  "t \<noteq> [] \<Longrightarrow> map_sum id name (extractResumeData (Some t)) = Inr (extractName t (linesOf t))"
  using extractResumeData_Some[of t] by auto

lemma email_field:
  "t \<noteq> [] \<Longrightarrow> map_sum id email (extractResumeData (Some t)) = extractEmail t"
  using extractResumeData_Some[of t] by auto

lemma contactNumber_field:
  "t \<noteq> [] \<Longrightarrow> map_sum id contactNumber (extractResumeData (Some t)) = Inr (extractContactNumber t)"
  using extractResumeData_Some[of t] by auto


lemma portfolio_field:
  "t \<noteq> [] \<Longrightarrow> map_sum id (\<lambda>p. portfolio (links p)) (extractResumeData (Some t)) = Inr (extractPortfolio t)"
  using extractResumeData_Some[of t] by auto

section \<open>Claims about the birthday matcher\<close>

text \<open>
  C1, on the code: with today the 4th of February, the dates of birth \<open>04-02-90\<close>,
  \<open>4 february\<close> and \<open>february 4th\<close> are birthday matches and \<open>14/2/1995\<close> is not, as
  the claim says, and \<open>the 4th of February\<close> is one by the ordinal check alone. But
  \<open>4/2/1995\<close> is not a match: the numeric encodings are built from the zero-padded
  \<open>dayStr\<close> and \<open>monthStr\<close> only. Nor are \<open>4/2\<close> and \<open>4/february\<close>, the forms
  the repository's own tests store as a date of birth of today.
\<close>

theorem C1_unpadded_date_not_matched:
  "\<not> isBirthdayToday (Some ''4/2/1995'') 4 2 ''February''
   \<and> \<not> isBirthdayToday (Some ''4/2'') 4 2 ''February''
   \<and> \<not> isBirthdayToday (Some ''4/february'') 4 2 ''February''
   \<and> isBirthdayToday (Some ''04-02-90'') 4 2 ''February''
   \<and> isBirthdayToday (Some ''4 february'') 4 2 ''February''
   \<and> isBirthdayToday (Some ''february 4th'') 4 2 ''February''
   \<and> \<not> isBirthdayToday (Some ''14/2/1995'') 4 2 ''February''
   \<and> isBirthdayToday (Some ''the 4th of February'') 4 2 ''February''
   \<and> \<not> anyPatternIncluded (toLowerCase ''the 4th of February'') (datePatterns 4 2 ''February'')"
  by (simp add: isBirthdayToday_def datePatterns_4_2 dayOrdinal_4 toLowerCase_February
      toLowerCase_def toLowerChar_def char_class_defs)

section \<open>Claims about the contact number\<close>




section \<open>The shape of a contact number\<close>

lemma removeAllFrom_Cls:
  "removeAllFrom (RegExp (Cls neg items) f) prev s 0
     = filter (\<lambda>c. \<not> clsMatch (CHR ''i'' \<in> set f) neg items c) s"
proof (induction s arbitrary: prev)
  case Nil
  then show ?case by simp
next
  case (Cons c cs)
  show ?case
    by (simp add: matchHere_RegExp matchRx.simps Cons.IH)
qed

lemma cleanedOf_filter: "cleanedOf s = filter (\<lambda>c. isDigit c \<or> c = CHR ''+'') s"
  by (simp add: cleanedOf_def removeAll_def ncls_def removeAllFrom_Cls clsMatch_def)

lemma gated_cleanedOf: "10 \<le> length (cleanedOf s) \<Longrightarrow> length (cleanedOf s) \<le> 15 \<Longrightarrow> gated (cleanedOf s)"
  by (simp add: gated_def cleanedOf_filter list_all_iff)

lemma contactFromLabelMatches_gated: "gated (contactFromLabelMatches ms)"
  by (induction ms) (auto simp: gated_cleanedOf Let_def split: option.splits, simp add: gated_def)

lemma contactFromLabelPatterns_gated: "gated (contactFromLabelPatterns ps t)"
  by (induction ps) (auto simp: contactFromLabelMatches_gated Let_def gated_def[of "[]"] split: option.splits)

lemma contactFromMatches_gated: "gated (contactFromMatches t ms)"
  by (induction ms) (auto simp: gated_cleanedOf Let_def gated_def[of "[]"])

lemma contactFromPatterns_gated: "gated (contactFromPatterns ps t)"
  by (induction ps) (auto simp: contactFromMatches_gated Let_def gated_def[of "[]"] split: option.splits)

lemma extractContactNumber_gated: "gated (extractContactNumber t)"
  by (simp add: extractContactNumber_def Let_def contactFromLabelPatterns_gated contactFromPatterns_gated)

lemma contact_plus_inside: "extractContactNumber ''phone: 12345+67890'' = ''12345+67890''"
  by (simp add: contact_defs rx_defs char_eval api_eval cong: rx_cong)

text \<open>
  C4, as stated, at the text \<open>phone: 12345+67890\<close>: the claim allows a \<open>+\<close> in the
  contact number only as its first character. The cleaning keeps every \<open>+\<close> of the
  match, wherever it stands.
\<close>

theorem C4_plus_inside_number:
  "map_sum id contactNumber (extractResumeData (Some ''phone: 12345+67890'')) = Inr ''12345+67890''"
  by (simp add: contactNumber_field contact_plus_inside)

text \<open>
  C4, amended: for every input text, a contact number that is not empty consists of
  decimal digits and \<open>+\<close> characters only (any number of them, in any position) and
  has between 10 and 15 characters.
\<close>

theorem C4_contactNumber_shape:
  assumes "extractResumeData text = Inr p" and "contactNumber p \<noteq> []"
  shows "list_all (\<lambda>c. isDigit c \<or> c = CHR ''+'') (contactNumber p)
       \<and> 10 \<le> length (contactNumber p) \<and> length (contactNumber p) \<le> 15"
proof (cases "text")
  case None
  with assms show ?thesis by (auto simp: extractResumeData_def emptyProfile_def)
next
  case (Some t)
  show ?thesis
  proof (cases "t = []")
    case True
    with Some assms show ?thesis by (auto simp: extractResumeData_def emptyProfile_def)
  next
    case False
    from extractResumeData_Some[OF False] Some assms(1)
    have "contactNumber p = extractContactNumber t" by auto
    with extractContactNumber_gated[of t] assms(2) show ?thesis by (simp add: gated_def)
  qed
qed

theorem C4_contactNumber_shape_witness:
  "\<exists>p. extractResumeData (Some ''phone: 12345+67890'') = Inr p \<and> contactNumber p \<noteq> []
       \<and> list_all (\<lambda>c. isDigit c \<or> c = CHR ''+'') (contactNumber p)
       \<and> 10 \<le> length (contactNumber p) \<and> length (contactNumber p) \<le> 15"
proof -
  from extractResumeData_Some[of "''phone: 12345+67890''"] obtain p where
    p: "extractResumeData (Some ''phone: 12345+67890'') = Inr p"
       "contactNumber p = extractContactNumber ''phone: 12345+67890''" by auto
  from p(2) have ne: "contactNumber p \<noteq> []" by (simp add: contact_plus_inside)
  from C4_contactNumber_shape[OF p(1) ne] p(1) ne show ?thesis by blast
qed







lemmas run_eval = rx_defs char_eval api_eval

section \<open>A text on which no pattern matches\<close>












section \<open>Claims about the whole profile\<close>


section \<open>Claims about the portfolio link\<close>

lemma portfolio_with_label: "extractPortfolio ''Portfolio: https://me.dev'' = ''Portfolio: https://me.dev''"
  by (simp add: portfolio_defs run_eval cong: rx_cong)

lemma portfolio_second_match:
  "extractPortfolio ''web: http://a.io website: http://b.io'' = ''website: http://b.io''"
  by (simp add: portfolio_defs run_eval cong: rx_cong)

text \<open>
  C5, on the code: for a text with one portfolio label followed by a URL, the field is
  the whole match, label included, not the URL alone; with two labelled URLs it is the
  second whole match. The pattern has the flag \<open>g\<close>, so \<open>match\<close> returns the list of
  the matches and index 1 is not the captured URL.
\<close>

theorem C5_portfolio_keeps_label:
  "map_sum id (\<lambda>p. portfolio (links p)) (extractResumeData (Some ''Portfolio: https://me.dev''))
     = Inr ''Portfolio: https://me.dev''
   \<and> map_sum id (\<lambda>p. portfolio (links p))
         (extractResumeData (Some ''web: http://a.io website: http://b.io''))
     = Inr ''website: http://b.io''"
  by (simp add: portfolio_field portfolio_with_label portfolio_second_match)

section \<open>Claims about the email address\<close>

lemma email_placeholder_only: "extractEmail ''foo@example.com'' = Inr []"
  by (simp add: email_defs run_eval cong: rx_cong)

lemma email_placeholder_then_real:
  "extractEmail ''foo@example.com bar@realdomain.io'' = Inr ''bar@realdomain.io''"
  by (simp add: email_defs run_eval cong: rx_cong)

lemma email_labelled_placeholder: "extractEmail ''Email: foo@example.com'' = Inr ''foo@example.com''"
  by (simp add: email_defs run_eval cong: rx_cong)

text \<open>
  C7, on the code: the text \<open>foo@example.com\<close> yields an empty email, and the text
  with \<open>foo@example.com\<close> and \<open>bar@realdomain.io\<close> yields the second address; but in
  the text \<open>Email: foo@example.com\<close> the only email-shaped token is the placeholder
  address and the field is that address: the labelled fallback does not filter.
\<close>

theorem C7_labelled_placeholder_returned:
  "map_sum id email (extractResumeData (Some ''foo@example.com'')) = Inr []
   \<and> map_sum id email (extractResumeData (Some ''foo@example.com bar@realdomain.io''))
       = Inr ''bar@realdomain.io''
   \<and> map_sum id email (extractResumeData (Some ''Email: foo@example.com'')) = Inr ''foo@example.com''"
  by (simp add: email_field email_placeholder_only email_placeholder_then_real
      email_labelled_placeholder)

section \<open>Claims about the date of birth\<close>







section \<open>The placeholder filter\<close>

lemma startsWith_append: "startsWith (p @ r) p"
  by (induction p) auto

lemma startsWith_includes: "startsWith s p \<Longrightarrow> includes_str s p"
  by (cases s) auto

lemma includes_str_infix: "includes_str (a @ p @ b) p"
proof (induction a)
  case Nil
  show ?case using startsWith_includes[OF startsWith_append[of p b]] by simp
next
  case (Cons c a)
  then show ?case by simp
qed

lemma splitChar_sep: "sep \<notin> set l \<Longrightarrow> splitChar sep (l @ sep # r) = l # splitChar sep r"
  by (induction l) auto

lemma splitChar_no_sep:
  "sep \<notin> set a \<Longrightarrow> splitChar sep (a @ r) = (a @ hd (splitChar sep r)) # tl (splitChar sep r)"
proof (induction a)
  case Nil
  then show ?case using splitChar_not_Nil[of sep r] by simp
next
  case (Cons c a)
  then show ?case by auto
qed

lemma someIncluded_member:
  "fp \<in> set fps \<Longrightarrow> includes_str d fp \<Longrightarrow> someIncluded (Some d) fps = Inr True"
  by (induction fps) auto

lemma falsePositives_no_at: "fp \<in> set falsePositives \<Longrightarrow> CHR ''@'' \<notin> set fp"
  by (auto simp: falsePositives_def)

lemma keepEmail_placeholder:
  assumes "fp \<in> set falsePositives" and "CHR ''@'' \<notin> set l" and "CHR ''@'' \<notin> set a"
  shows "keepEmail (l @ ''@'' @ a @ fp @ b) = Inr False"
proof -
  have "CHR ''@'' \<notin> set (a @ fp)" using assms(3) falsePositives_no_at[OF assms(1)] by simp
  from splitChar_no_sep[OF this, of b]
  have "splitChar CHR ''@'' (a @ fp @ b)
          = (a @ fp @ hd (splitChar CHR ''@'' b)) # tl (splitChar CHR ''@'' b)" by simp
  with splitChar_sep[OF assms(2), of "a @ fp @ b"]
  have "elemAt (splitChar CHR ''@'' (l @ ''@'' @ a @ fp @ b)) 1
          = Some (a @ fp @ hd (splitChar CHR ''@'' b))" by simp
  moreover have "someIncluded (Some (a @ fp @ hd (splitChar CHR ''@'' b))) falsePositives = Inr True"
    using assms(1) includes_str_infix by (rule someIncluded_member)
  ultimately show ?thesis by (simp add: keepEmail_def)
qed

lemma filterEmails_kept:
  "filterEmails es = Inr kept \<Longrightarrow> e \<in> set kept \<Longrightarrow> keepEmail e = Inr True"
proof (induction es arbitrary: kept)
  case Nil
  then show ?case by simp
next
  case (Cons x xs)
  then show ?case
    by (auto split: sum.splits if_splits)
qed

lemma emailPrimary_kept: "emailPrimary t = Inr e \<Longrightarrow> e \<noteq> [] \<Longrightarrow> keepEmail e = Inr True"
  unfolding emailPrimary_def
  by (auto split: option.splits sum.splits list.splits dest: filterEmails_kept)

lemma protest_scan: "match_g ''bob@protest.com'' emailRegex = Some [''bob@protest.com'']"
  by (simp add: email_defs run_eval cong: rx_cong)

lemma protest_primary: "emailPrimary ''bob@protest.com'' = Inr []"
  by (simp add: email_defs run_eval cong: rx_cong)

text \<open>
  C9: the filter of the primary scan tests the domain by containment. An address
  \<open>l@a fp b\<close>, whose domain (the text between the first \<open>@\<close> and the next) holds a
  placeholder \<open>fp\<close> anywhere, is dropped by the filter callback, and the primary scan
  never returns it; the domain need not be a placeholder, as for \<open>bob@protest.com\<close>,
  which the scan finds and the filter drops.
\<close>

theorem C9_placeholder_test_is_containment:
  assumes "fp \<in> set falsePositives" and "CHR ''@'' \<notin> set l" and "CHR ''@'' \<notin> set a"
  shows "keepEmail (l @ ''@'' @ a @ fp @ b) = Inr False
       \<and> emailPrimary t \<noteq> Inr (l @ ''@'' @ a @ fp @ b)
       \<and> ''protest.com'' \<notin> set falsePositives
       \<and> match_g ''bob@protest.com'' emailRegex = Some [''bob@protest.com'']
       \<and> emailPrimary ''bob@protest.com'' = Inr []"
proof -
  have drop: "keepEmail (l @ ''@'' @ a @ fp @ b) = Inr False"
    using assms by (rule keepEmail_placeholder)
  have "emailPrimary t \<noteq> Inr (l @ ''@'' @ a @ fp @ b)"
  proof
    assume "emailPrimary t = Inr (l @ ''@'' @ a @ fp @ b)"
    then have "keepEmail (l @ ''@'' @ a @ fp @ b) = Inr True"
      by (rule emailPrimary_kept) simp
    with drop show False by simp
  qed
  with drop show ?thesis
    by (simp add: protest_scan protest_primary) (simp add: falsePositives_def)
qed

theorem C9_placeholder_test_is_containment_witness:
  "''test.com'' \<in> set falsePositives \<and> CHR ''@'' \<notin> set ''bob'' \<and> CHR ''@'' \<notin> set ''pro''
   \<and> keepEmail ''bob@protest.com'' = Inr False
   \<and> emailPrimary ''bob@protest.com'' \<noteq> Inr ''bob@protest.com''"
  using C9_placeholder_test_is_containment[of "''test.com''" "''bob''" "''pro''" "[]" "''bob@protest.com''"]
  by (simp add: falsePositives_def)

section \<open>The guard against digits of an email address\<close>

lemma indexOf_first:
  "\<forall>i<length pre. \<not> startsWith (drop i (pre @ m @ post)) m
   \<Longrightarrow> indexOf (pre @ m @ post) m = int (length pre)"
proof (induction pre)
  case Nil
  have "startsWith (m @ post) m" by (rule startsWith_append)
  then show ?case by (cases "m @ post") auto
next
  case (Cons c pre)
  from Cons.prems have "\<not> startsWith (drop 0 ((c # pre) @ m @ post)) m" by blast
  then have no: "\<not> startsWith (c # pre @ m @ post) m" by simp
  have "\<forall>i<length pre. \<not> startsWith (drop i (pre @ m @ post)) m"
  proof (intro allI impI)
    fix i assume "i < length pre"
    then have "Suc i < length (c # pre)" by simp
    with Cons.prems have "\<not> startsWith (drop (Suc i) ((c # pre) @ m @ post)) m" by blast
    then show "\<not> startsWith (drop i (pre @ m @ post)) m" by simp
  qed
  from Cons.IH[OF this] no show ?case by simp
qed

lemma includes_str_char: "includes_str s [c] = (c \<in> set s)"
proof (induction s)
  case Nil
  show ?case by simp
next
  case (Cons x s)
  have "startsWith (x # s) [c] = (x = c)" by (cases s) auto
  with Cons show ?case by auto
qed

lemma beforeMatch_first:
  assumes "\<forall>i<length pre. \<not> startsWith (drop i (pre @ m @ post)) m"
  shows "beforeMatch (pre @ m @ post) m = drop (length pre - 5) pre"
proof -
  let ?t = "pre @ m @ post"
  have a: "clampIndex ?t (max 0 (int (length pre) - 5)) = length pre - 5"
    by (auto simp: clampIndex_def)
  have b: "clampIndex ?t (int (length pre)) = length pre"
    by (simp add: clampIndex_def)
  have "beforeMatch ?t m = take (length pre - (length pre - 5)) (drop (length pre - 5) ?t)"
    unfolding beforeMatch_def indexOf_first[OF assms] substring_def a b by (simp add: Let_def)
  also have "\<dots> = drop (length pre - 5) pre" by simp
  finally show ?thesis .
qed

lemma afterMatch_first:
  assumes "\<forall>i<length pre. \<not> startsWith (drop i (pre @ m @ post)) m"
  shows "afterMatch (pre @ m @ post) m = take 5 post"
proof -
  let ?t = "pre @ m @ post"
  have a: "clampIndex ?t (int (length pre) + int (length m)) = length pre + length m"
    by (simp add: clampIndex_def nat_add_distrib)
  have b: "clampIndex ?t (min (int (length ?t)) (int (length pre) + int (length m) + 5))
             = length pre + length m + min (length post) 5"
    by (auto simp: clampIndex_def min_def nat_add_distrib)
  have "afterMatch ?t m = take (min (length post) 5) (drop (length pre + length m) ?t)"
    unfolding afterMatch_def indexOf_first[OF assms] substring_def a b by (simp add: Let_def)
  also have "\<dots> = take 5 post" by (cases "length post \<le> 5") (simp_all add: min_def)
  finally show ?thesis .
qed

lemma adjacent_first_rejected:
  "extractContactNumber ''a@1234567890 xx 1234567890'' = []"
  by (simp add: contact_defs run_eval cong: rx_cong)

lemma adjacent_first_matches:
  "match_g ''a@1234567890 xx 1234567890'' internationalFormat = Some [''1234567890'', ''1234567890'']"
  by (simp add: contact_defs run_eval cong: rx_cong)

lemma adjacent_later_accepted:
  "extractContactNumber ''xx 1234567890 yyyy a@1234567890'' = ''1234567890''"
  by (simp add: contact_defs run_eval cong: rx_cong)


text \<open>
  C10: the guard of the standalone tier reads the five characters before and after the
  first occurrence of the matched string in the text. Where \<open>pre\<close> is the text before
  the first occurrence of \<open>m\<close> (no earlier position starts an occurrence) and \<open>post\<close>
  the text after it, \<open>indexOf\<close> is the length of \<open>pre\<close> and the guard is a test on
  the last five characters of \<open>pre\<close> and the first five of \<open>post\<close>, whichever
  occurrence the pattern matched. So in \<open>a@1234567890 xx 1234567890\<close> both matches of
  the digits are rejected, the first occurrence being next to \<open>@\<close>, while in
  \<open>xx 1234567890 yyyy a@1234567890\<close> the number is accepted.
\<close>

theorem C10_guard_reads_first_occurrence:
  assumes "list_all (\<lambda>i. \<not> startsWith (drop i (pre @ m @ post)) m) [0..<length pre]"
  shows "indexOf (pre @ m @ post) m = int (length pre)
       \<and> partOfEmail (pre @ m @ post) m
           = (CHR ''@'' \<in> set (drop (length pre - 5) pre) \<or> CHR ''@'' \<in> set (take 5 post)
              \<or> (CHR ''.'' \<in> set (drop (length pre - 5) pre) \<and> CHR ''.'' \<in> set (take 5 post)))
       \<and> match_g ''a@1234567890 xx 1234567890'' internationalFormat
           = Some [''1234567890'', ''1234567890'']
       \<and> map_sum id contactNumber (extractResumeData (Some ''a@1234567890 xx 1234567890'')) = Inr []
       \<and> map_sum id contactNumber (extractResumeData (Some ''xx 1234567890 yyyy a@1234567890''))
           = Inr ''1234567890''"
proof -
  from assms have first: "\<forall>i<length pre. \<not> startsWith (drop i (pre @ m @ post)) m"
    by (simp add: list_all_iff)
  have "partOfEmail (pre @ m @ post) m
           = (CHR ''@'' \<in> set (drop (length pre - 5) pre) \<or> CHR ''@'' \<in> set (take 5 post)
              \<or> (CHR ''.'' \<in> set (drop (length pre - 5) pre) \<and> CHR ''.'' \<in> set (take 5 post)))"
    unfolding partOfEmail_def beforeMatch_first[OF first] afterMatch_first[OF first]
    by (simp only: includes_str_char)
  with indexOf_first[OF first] show ?thesis
    by (simp add: contactNumber_field adjacent_first_matches adjacent_first_rejected
        adjacent_later_accepted)
qed

theorem C10_guard_reads_first_occurrence_witness:
  "list_all (\<lambda>i. \<not> startsWith (drop i (''a@'' @ ''1234567890'' @ '' xx 1234567890'')) ''1234567890'')
     [0..<length ''a@'']
   \<and> indexOf ''a@1234567890 xx 1234567890'' ''1234567890'' = 2
   \<and> partOfEmail ''a@1234567890 xx 1234567890'' ''1234567890''"
  using C10_guard_reads_first_occurrence[of "''a@''" "''1234567890''" "'' xx 1234567890''"]
  by (simp add: upt_rec)

end
